theory Spec2Isabelle
  imports Complex_Main "HOL-Library.Sublist"
begin

section \<open>Lab-2.cpp: an OpenGL 4.5 context bootstrap with a debug log\<close>

text \<open>
  The program of \<^verbatim>\<open>CS200_Lab01/source/Lab-2.cpp\<close> is a sequence of calls into GLFW, GLEW,
  OpenGL and the C++ stream library. The embedding threads a \<open>world\<close> through every
  function of the source: the world holds the trace of the external calls made so far, the
  file system, and the part of the GLFW and OpenGL state that the program reads or writes.
  What the external libraries answer is an \<open>env\<close>, a parameter of every function.
\<close>

subsection \<open>Constants of the external headers\<close>

text \<open>
  The numbers are those of \<^verbatim>\<open>glfw3.h\<close>, \<^verbatim>\<open>glew.h\<close> and \<^verbatim>\<open>cstdlib\<close>, which are not part
  of the repository. Window handles are pointers: \<open>NULL\<close> is the handle 0.
\<close>

type_synonym handle = nat

definition NULL :: handle where "NULL = 0"

definition GLFW_TRUE :: int where "GLFW_TRUE = 1"
definition GLFW_RELEASE :: int where "GLFW_RELEASE = 0"
definition GLFW_PRESS :: int where "GLFW_PRESS = 1"
definition GLFW_REPEAT :: int where "GLFW_REPEAT = 2"
definition GLFW_KEY_ESCAPE :: int where "GLFW_KEY_ESCAPE = 256"
definition GLFW_MOUSE_BUTTON_LEFT :: int where "GLFW_MOUSE_BUTTON_LEFT = 0"
definition GLFW_MOUSE_BUTTON_RIGHT :: int where "GLFW_MOUSE_BUTTON_RIGHT = 1"
definition GLFW_OPENGL_CORE_PROFILE :: int where "GLFW_OPENGL_CORE_PROFILE = 204801"
definition GLFW_CURSOR_NORMAL :: int where "GLFW_CURSOR_NORMAL = 212993"
definition GLEW_OK :: nat where "GLEW_OK = 0"
definition EXIT_FAILURE :: int where "EXIT_FAILURE = 1"

datatype glenum =
    GL_VENDOR | GL_RENDERER | GL_VERSION | GL_SHADING_LANGUAGE_VERSION
  | GL_MAJOR_VERSION | GL_MINOR_VERSION | GL_MAX_ELEMENTS_VERTICES
  | GL_MAX_ELEMENTS_INDICES | GL_MAX_GEOMETRY_OUTPUT_VERTICES
  | GL_MAX_COMBINED_TEXTURE_IMAGE_UNITS | GL_MAX_CUBE_MAP_TEXTURE_SIZE
  | GL_MAX_DRAW_BUFFERS | GL_MAX_FRAGMENT_UNIFORM_COMPONENTS
  | GL_MAX_TEXTURE_IMAGE_UNITS | GL_MAX_TEXTURE_SIZE | GL_MAX_VARYING_FLOATS
  | GL_MAX_VERTEX_ATTRIBS | GL_MAX_VERTEX_TEXTURE_IMAGE_UNITS
  | GL_MAX_VERTEX_UNIFORM_COMPONENTS | GL_MAX_VIEWPORT_DIMS | GL_STEREO
  | GL_NUM_EXTENSIONS | GL_EXTENSIONS | GLEW_VERSION

datatype hint =
    GLFW_CONTEXT_VERSION_MAJOR | GLFW_CONTEXT_VERSION_MINOR | GLFW_OPENGL_PROFILE
  | GLFW_OPENGL_FORWARD_COMPAT | GLFW_DOUBLEBUFFER | GLFW_DEPTH_BITS | GLFW_RED_BITS
  | GLFW_GREEN_BITS | GLFW_BLUE_BITS | GLFW_ALPHA_BITS

datatype bitfield = GL_COLOR_BUFFER_BIT

datatype input_mode = GLFW_CURSOR

subsection \<open>External calls, events and the world\<close>

datatype openmode = Mode_app | Mode_out

text \<open>
  One constructor for each external function the source calls. An open of a file stream
  records whether it succeeded. One statement that inserts into a stream is one write of
  the text it inserts.
\<close>

datatype call =
    OfstreamOpen string openmode bool
  | OfstreamWrite string string
  | OfstreamClose string
  | CerrWrite string
  | CoutWrite string
  | StdTime
  | StdCtime
  | GlfwInit
  | GlfwGetVersionString
  | GlfwSetErrorCallback
  | GlfwWindowHint hint int
  | GlfwCreateWindow nat nat string
  | GlfwMakeContextCurrent handle
  | GlfwSetFramebufferSizeCallback handle
  | GlfwSetKeyCallback handle
  | GlfwSetMouseButtonCallback handle
  | GlfwSetCursorPosCallback handle
  | GlfwSetScrollCallback handle
  | GlfwSetInputMode handle input_mode int
  | GlfwDestroyWindow handle
  | GlfwTerminate
  | GlfwWindowShouldClose handle
  | GlfwSetWindowShouldClose handle int
  | GlfwSwapBuffers handle
  | GlfwPollEvents
  | GlfwGetFramebufferSize handle
  | GlewInit
  | GlewGetErrorString nat
  | GlewGetString glenum
  | GlGetString glenum
  | GlGetIntegerv glenum
  | GlGetBooleanv glenum
  | GlGetStringi glenum int
  | GlClearColor real real real real
  | GlClear bitfield
  | GlViewport int int int int

text \<open>What GLFW can deliver while it polls: the input events, and an error report.\<close>

datatype event =
    KeyEvent int int int int
  | MouseButtonEvent int int int
  | CursorPosEvent real real
  | ScrollEvent real real
  | FramebufferSizeEvent int int
  | CloseRequest
  | ErrorEvent int string

text \<open>
  A colour is its red, green, blue and alpha components. The only components that the
  program itself supplies are the literals \<^verbatim>\<open>0.0\<close> and \<^verbatim>\<open>1.0\<close>.
\<close>

type_synonym color = "real \<times> real \<times> real \<times> real"

text \<open>
  The world: \<open>calls\<close> is the trace of the external calls, oldest first; \<open>fs\<close> gives the
  text of each file that exists; \<open>opens\<close> and \<open>polls\<close> count the opens of file streams and
  the calls of \<^verbatim>\<open>glfwPollEvents\<close> made so far (the environment answers by these counts).
  Of GLFW's state it holds the handle of the one window the program creates, the close
  flag of that window, and which callbacks are registered; of OpenGL's state the clear
  colour, the viewport, and \<open>cleared\<close>, the colours with which \<^verbatim>\<open>glClear\<close> has filled the
  colour buffer, oldest first.
\<close>

record world =
  calls :: "call list"
  fs :: "string \<Rightarrow> string option"
  opens :: nat
  polls :: nat
  window :: handle
  should_close :: bool
  error_cb_set :: bool
  fbsize_cb_set :: bool
  key_cb_set :: bool
  mousebutton_cb_set :: bool
  mousepos_cb_set :: bool
  mousescroll_cb_set :: bool
  clear_color :: color
  viewport :: "int \<times> int \<times> int \<times> int"
  cleared :: "color list"

text \<open>
  The answers of the environment. \<open>can_open n\<close> says whether the \<open>n\<close>-th attempt of the
  run to open a file stream succeeds; \<open>poll_events n\<close> are the events that the \<open>n\<close>-th
  call of \<^verbatim>\<open>glfwPollEvents\<close> delivers; \<open>debug\<close> says whether the program was compiled with
  \<^verbatim>\<open>_DEBUG\<close>; \<open>build_date\<close> and \<open>build_time\<close> are \<^verbatim>\<open>__DATE__\<close> and \<^verbatim>\<open>__TIME__\<close>;
  \<open>ctime_text\<close> is the text of \<^verbatim>\<open>std::ctime\<close> before the newline that ends it.
\<close>

record env =
  can_open :: "nat \<Rightarrow> bool"
  ctime_text :: string
  build_date :: string
  build_time :: string
  debug :: bool
  show_double :: "real \<Rightarrow> string"
  glfwInit_ok :: bool
  glfwVersionString :: string
  createWindow_errors :: "(int \<times> string) list"
  createWindow_result :: handle
  framebuffer_size :: "int \<times> int"
  poll_events :: "nat \<Rightarrow> event list"
  glewInit_result :: nat
  glewErrorString :: "nat \<Rightarrow> string"
  glewVersion :: string
  glew_version_4_5 :: bool
  gl_string :: "glenum \<Rightarrow> string"
  gl_integer :: "glenum \<Rightarrow> nat \<Rightarrow> int"
  gl_boolean :: "glenum \<Rightarrow> bool"
  gl_stringi :: "glenum \<Rightarrow> int \<Rightarrow> string"

text \<open>
  How a function ends: it returns a value, or the process exits with a status
  (\<^verbatim>\<open>std::exit\<close>), or the fuel of the frame loop ran out while the loop was still running.
\<close>

datatype 'a outcome = Returns 'a world | Exits int world | Unfinished world

fun world_of :: "'a outcome \<Rightarrow> world" where
  "world_of (Returns v w) = w"
| "world_of (Exits c w) = w"
| "world_of (Unfinished w) = w"

definition emit :: "call \<Rightarrow> world \<Rightarrow> world" where
  "emit c w = w\<lparr>calls := calls w @ [c]\<rparr>"

definition boot :: "(string \<Rightarrow> string option) \<Rightarrow> world" where
  "boot files = \<lparr>calls = [], fs = files, opens = 0, polls = 0, window = NULL,
     should_close = False, error_cb_set = False, fbsize_cb_set = False, key_cb_set = False,
     mousebutton_cb_set = False, mousepos_cb_set = False, mousescroll_cb_set = False,
     clear_color = (0, 0, 0, 0), viewport = (0, 0, 0, 0), cleared = []\<rparr>"

subsection \<open>Printable values\<close>

text \<open>
  The arguments of the logging helper are strings (\<^verbatim>\<open>std::string\<close>, C strings) and
  integers (\<^verbatim>\<open>int\<close>, \<^verbatim>\<open>GLint\<close>); \<open>show_arg\<close> is the text that \<^verbatim>\<open>operator<<\<close> inserts.
  The integers are modelled by \<open>int\<close>: the only arithmetic of the program is the \<^verbatim>\<open>i + 1\<close>
  of the extension loop, where \<^verbatim>\<open>i\<close> is below a \<^verbatim>\<open>GLint\<close>, so that nothing wraps around.
\<close>

datatype arg = Str string | Num int

definition digit_char :: "nat \<Rightarrow> char" where
  "digit_char d = char_of (48 + d)"

fun digits :: "nat \<Rightarrow> string" where
  "digits n = (if n < 10 then [digit_char n] else digits (n div 10) @ [digit_char (n mod 10)])"

declare digits.simps [simp del]

definition show_int :: "int \<Rightarrow> string" where
  "show_int i = (if i < 0 then CHR ''-'' # digits (nat (- i)) else digits (nat i))"

fun show_arg :: "arg \<Rightarrow> string" where
  "show_arg (Str s) = s"
| "show_arg (Num i) = show_int i"

definition newline :: string where
  "newline = [CHR 0x0A]"

subsection \<open>The file stream and the logging helper\<close>

definition g_logfilename :: string where
  "g_logfilename = ''gl-debug-log.txt''"

definition file_text :: "world \<Rightarrow> string \<Rightarrow> string" where
  "file_text w name = (case fs w name of None \<Rightarrow> [] | Some t \<Rightarrow> t)"

text \<open>
  Opening an \<^verbatim>\<open>std::ofstream\<close>: the environment decides whether the open succeeds. A
  successful open in append mode creates a missing file and keeps an existing one; a
  successful open in mode \<^verbatim>\<open>out\<close> leaves the file empty. A failed open changes no file.
\<close>

definition ofstream_open :: "env \<Rightarrow> string \<Rightarrow> openmode \<Rightarrow> world \<Rightarrow> bool \<times> world" where
  "ofstream_open e name mode w =
     (let ok = can_open e (opens w);
          w1 = (emit (OfstreamOpen name mode ok) w)\<lparr>opens := Suc (opens w)\<rparr>
      in if \<not> ok then (False, w1)
         else (True, w1\<lparr>fs := (fs w1)(name \<mapsto>
                 (case mode of Mode_app \<Rightarrow> file_text w1 name | Mode_out \<Rightarrow> []))\<rparr>))"

definition ofstream_put :: "string \<Rightarrow> string \<Rightarrow> world \<Rightarrow> world" where
  "ofstream_put name t w =
     (emit (OfstreamWrite name t) w)\<lparr>fs := (fs w)(name \<mapsto> file_text w name @ t)\<rparr>"

definition ofstream_close :: "string \<Rightarrow> world \<Rightarrow> world" where
  "ofstream_close name w = emit (OfstreamClose name) w"

definition log_to_debug_file :: "env \<Rightarrow> string \<Rightarrow> arg list \<Rightarrow> world \<Rightarrow> bool \<times> world" where
  "log_to_debug_file e file_name args w =
     (case ofstream_open e file_name Mode_app w of
        (ok, w1) \<Rightarrow>
          if \<not> ok then
            (False, emit (CerrWrite (''ERROR: could not open log file '' @ file_name
                                       @ '' for writing'' @ newline)) w1)
          else
            (let w2 = fold (\<lambda>a. ofstream_put file_name (show_arg a @ '' '')) args w1;
                 w3 = ofstream_put file_name newline w2
             in (True, ofstream_close file_name w3)))"

definition create_log_file :: "env \<Rightarrow> world \<Rightarrow> bool \<times> world" where
  "create_log_file e w =
     (case ofstream_open e g_logfilename Mode_out w of
        (ok, w1) \<Rightarrow>
          if \<not> ok then
            (False, emit (CerrWrite (''ERROR: could not open log file '' @ g_logfilename
                                       @ '' for writing'' @ newline)) w1)
          else
            (let w2 = emit StdCtime (emit StdTime w1);
                 w3 = ofstream_put g_logfilename
                        (''OpenGL Application Log File local time: ''
                           @ ctime_text e @ newline) w2;
                 w4 = ofstream_put g_logfilename
                        (''Build version: '' @ build_date e @ '' '' @ build_time e
                           @ newline @ newline) w3
             in (True, ofstream_close g_logfilename w4)))"

subsection \<open>The callbacks\<close>

definition cout_debug :: "env \<Rightarrow> string \<Rightarrow> world \<Rightarrow> world" where
  "cout_debug e t w = (if debug e then emit (CoutWrite t) w else w)"

definition glfw_error_cb :: "env \<Rightarrow> int \<Rightarrow> string \<Rightarrow> world \<Rightarrow> world" where
  "glfw_error_cb e error description w =
     snd (log_to_debug_file e g_logfilename
            [Str ''GLFW Error id: '', Num error, Str '' | description: '', Str description] w)"

definition glViewport :: "int \<Rightarrow> int \<Rightarrow> int \<Rightarrow> int \<Rightarrow> world \<Rightarrow> world" where
  "glViewport x y width height w =
     (emit (GlViewport x y width height) w)\<lparr>viewport := (x, y, width, height)\<rparr>"

definition fbsize_cb :: "handle \<Rightarrow> int \<Rightarrow> int \<Rightarrow> world \<Rightarrow> world" where
  "fbsize_cb pwin width height w = glViewport 0 0 width height w"

definition glfwSetWindowShouldClose :: "handle \<Rightarrow> int \<Rightarrow> world \<Rightarrow> world" where
  "glfwSetWindowShouldClose pwin v w =
     (emit (GlfwSetWindowShouldClose pwin v) w)\<lparr>should_close := (v \<noteq> 0)\<rparr>"

definition key_cb :: "env \<Rightarrow> handle \<Rightarrow> int \<Rightarrow> int \<Rightarrow> int \<Rightarrow> int \<Rightarrow> world \<Rightarrow> world" where
  "key_cb e pwin key scancode action mods w =
     (let w1 = (if GLFW_PRESS = action then cout_debug e (''Key pressed'' @ newline) w
                else if GLFW_REPEAT = action then
                  cout_debug e (''Key repeatedly pressed'' @ newline) w
                else if GLFW_RELEASE = action then
                  cout_debug e (''Key released'' @ newline) w
                else w)
      in if GLFW_KEY_ESCAPE = key \<and> GLFW_PRESS = action
         then glfwSetWindowShouldClose pwin GLFW_TRUE w1
         else w1)"

definition mousebutton_cb :: "env \<Rightarrow> handle \<Rightarrow> int \<Rightarrow> int \<Rightarrow> int \<Rightarrow> world \<Rightarrow> world" where
  "mousebutton_cb e pwin button action mods w =
     (let w1 = (if button = GLFW_MOUSE_BUTTON_LEFT then cout_debug e ''Left mouse button '' w
                else if button = GLFW_MOUSE_BUTTON_RIGHT then
                  cout_debug e ''Right mouse button '' w
                else w)
      in if action = GLFW_PRESS then cout_debug e (''pressed!!!'' @ newline) w1
         else if action = GLFW_RELEASE then cout_debug e (''released!!!'' @ newline) w1
         else w1)"

definition mousepos_cb :: "env \<Rightarrow> handle \<Rightarrow> real \<Rightarrow> real \<Rightarrow> world \<Rightarrow> world" where
  "mousepos_cb e pwin xpos ypos w =
     cout_debug e (''Mouse cursor position: ('' @ show_double e xpos @ '', ''
                     @ show_double e ypos @ '')'' @ newline) w"

definition mousescroll_cb :: "env \<Rightarrow> handle \<Rightarrow> real \<Rightarrow> real \<Rightarrow> world \<Rightarrow> world" where
  "mousescroll_cb e pwin xoffset yoffset w =
     cout_debug e (''Mouse scroll wheel offset: ('' @ show_double e xoffset @ '', ''
                     @ show_double e yoffset @ '')'' @ newline) w"

subsection \<open>What GLFW does with the callbacks\<close>

text \<open>
  GLFW calls a callback of the program only once it is registered. An error is reported
  through the error callback. A click on the close widget or Alt+F4 sets the close flag of
  the window inside GLFW: the program registers no close callback.
\<close>

definition report_error :: "env \<Rightarrow> int \<times> string \<Rightarrow> world \<Rightarrow> world" where
  "report_error e err w =
     (if error_cb_set w then glfw_error_cb e (fst err) (snd err) w else w)"

fun dispatch :: "env \<Rightarrow> event \<Rightarrow> world \<Rightarrow> world" where
  "dispatch e (KeyEvent key scancode action mods) w =
     (if key_cb_set w then key_cb e (window w) key scancode action mods w else w)"
| "dispatch e (MouseButtonEvent button action mods) w =
     (if mousebutton_cb_set w then mousebutton_cb e (window w) button action mods w else w)"
| "dispatch e (CursorPosEvent x y) w =
     (if mousepos_cb_set w then mousepos_cb e (window w) x y w else w)"
| "dispatch e (ScrollEvent x y) w =
     (if mousescroll_cb_set w then mousescroll_cb e (window w) x y w else w)"
| "dispatch e (FramebufferSizeEvent width height) w =
     (if fbsize_cb_set w then fbsize_cb (window w) width height w else w)"
| "dispatch e CloseRequest w = w\<lparr>should_close := True\<rparr>"
| "dispatch e (ErrorEvent code description) w = report_error e (code, description) w"

definition glfwPollEvents :: "env \<Rightarrow> world \<Rightarrow> world" where
  "glfwPollEvents e w =
     fold (dispatch e) (poll_events e (polls w))
       ((emit GlfwPollEvents w)\<lparr>polls := Suc (polls w)\<rparr>)"

definition glfwCreateWindow :: "env \<Rightarrow> nat \<Rightarrow> nat \<Rightarrow> string \<Rightarrow> world \<Rightarrow> handle \<times> world" where
  "glfwCreateWindow e width height title w =
     (let w1 = fold (report_error e) (createWindow_errors e)
                 (emit (GlfwCreateWindow width height title) w)
      in (createWindow_result e, w1\<lparr>window := createWindow_result e, should_close := False\<rparr>))"

definition glClear :: "bitfield \<Rightarrow> world \<Rightarrow> world" where
  "glClear buffers w = (emit (GlClear buffers) w)\<lparr>cleared := cleared w @ [clear_color w]\<rparr>"

definition glClearColor :: "real \<Rightarrow> real \<Rightarrow> real \<Rightarrow> real \<Rightarrow> world \<Rightarrow> world" where
  "glClearColor r g b a w = (emit (GlClearColor r g b a) w)\<lparr>clear_color := (r, g, b, a)\<rparr>"

subsection \<open>Context creation and loader initialisation\<close>

definition create_gl_context :: "env \<Rightarrow> nat \<Rightarrow> nat \<Rightarrow> string \<Rightarrow> world \<Rightarrow> handle outcome" where
  "create_gl_context e fbwd fbht wintitle w =
     (let w0 = emit GlfwInit w in
      if \<not> glfwInit_ok e then
        Exits EXIT_FAILURE
          (snd (log_to_debug_file e g_logfilename
             [Str ''ERROR: Initialization of GLFW has failed - program aborted''] w0))
      else
        (let w1 = snd (log_to_debug_file e g_logfilename
                    [Str ''GLFW Version: '', Str (glfwVersionString e)]
                    (emit GlfwGetVersionString w0));
             w2 = (emit GlfwSetErrorCallback w1)\<lparr>error_cb_set := True\<rparr>;
             w3 = fold emit
                    [GlfwWindowHint GLFW_CONTEXT_VERSION_MAJOR 4,
                     GlfwWindowHint GLFW_CONTEXT_VERSION_MINOR 5,
                     GlfwWindowHint GLFW_OPENGL_PROFILE GLFW_OPENGL_CORE_PROFILE,
                     GlfwWindowHint GLFW_OPENGL_FORWARD_COMPAT GLFW_TRUE,
                     GlfwWindowHint GLFW_DOUBLEBUFFER GLFW_TRUE,
                     GlfwWindowHint GLFW_DEPTH_BITS 24,
                     GlfwWindowHint GLFW_RED_BITS 8,
                     GlfwWindowHint GLFW_GREEN_BITS 8,
                     GlfwWindowHint GLFW_BLUE_BITS 8,
                     GlfwWindowHint GLFW_ALPHA_BITS 8] w2
         in case glfwCreateWindow e fbwd fbht wintitle w3 of
              (pwin, w4) \<Rightarrow>
                if pwin = NULL then
                  Exits EXIT_FAILURE
                    (emit GlfwTerminate
                       (snd (log_to_debug_file e g_logfilename
                          [Str (''ERROR: GLFW is unable to create an OpenGL context.''
                                  @ newline)] w4)))
                else
                  (let w5 = emit (GlfwMakeContextCurrent pwin) w4;
                       w6 = (emit (GlfwSetFramebufferSizeCallback pwin) w5)
                              \<lparr>fbsize_cb_set := True\<rparr>;
                       w7 = (emit (GlfwSetKeyCallback pwin) w6)\<lparr>key_cb_set := True\<rparr>;
                       w8 = (emit (GlfwSetMouseButtonCallback pwin) w7)
                              \<lparr>mousebutton_cb_set := True\<rparr>;
                       w9 = (emit (GlfwSetCursorPosCallback pwin) w8)
                              \<lparr>mousepos_cb_set := True\<rparr>;
                       w10 = (emit (GlfwSetScrollCallback pwin) w9)
                               \<lparr>mousescroll_cb_set := True\<rparr>
                   in Returns pwin
                        (emit (GlfwSetInputMode pwin GLFW_CURSOR GLFW_CURSOR_NORMAL) w10))))"

definition init_gl_loader :: "env \<Rightarrow> world \<Rightarrow> bool \<times> world" where
  "init_gl_loader e w =
     (let w1 = emit GlewInit w; err = glewInit_result e in
      if GLEW_OK \<noteq> err then
        (False, snd (log_to_debug_file e g_logfilename
                       [Str ''ERROR: Unable to initialize GLEW '', Str (glewErrorString e err)]
                       (emit (GlewGetErrorString err) w1)))
      else if glew_version_4_5 e then
        (let w2 = snd (log_to_debug_file e g_logfilename
                         [Str ''GLEW Version: '', Str (glewVersion e)]
                         (emit (GlewGetString GLEW_VERSION) w1))
         in (True, snd (log_to_debug_file e g_logfilename
                          [Str (''Graphics driver supports OpenGL version 4.5'' @ newline)]
                          w2)))
      else
        (False, snd (log_to_debug_file e g_logfilename
                       [Str (''ERROR: System doesn't support GL 4.5 API'' @ newline)] w1)))"

subsection \<open>The capability query\<close>

definition params :: "(glenum \<times> string) list" where
  "params =
     [(GL_VENDOR, ''GL_VENDOR''),
      (GL_RENDERER, ''GL_RENDERER''),
      (GL_VERSION, ''GL_VERSION''),
      (GL_SHADING_LANGUAGE_VERSION, ''GL_SHADING_LANGUAGE_VERSION''),
      (GL_MAJOR_VERSION, ''GL_MAJOR_VERSION''),
      (GL_MINOR_VERSION, ''GL_MINOR_VERSION''),
      (GL_MAX_ELEMENTS_VERTICES, ''GL_MAX_ELEMENTS_VERTICES''),
      (GL_MAX_ELEMENTS_INDICES, ''GL_MAX_ELEMENTS_INDICES''),
      (GL_MAX_GEOMETRY_OUTPUT_VERTICES, ''GL_MAX_GEOMETRY_OUTPUT_VERTICES''),
      (GL_MAX_COMBINED_TEXTURE_IMAGE_UNITS, ''GL_MAX_COMBINED_TEXTURE_IMAGE_UNITS''),
      (GL_MAX_CUBE_MAP_TEXTURE_SIZE, ''GL_MAX_CUBE_MAP_TEXTURE_SIZE''),
      (GL_MAX_DRAW_BUFFERS, ''GL_MAX_DRAW_BUFFERS''),
      (GL_MAX_FRAGMENT_UNIFORM_COMPONENTS, ''GL_MAX_FRAGMENT_UNIFORM_COMPONENTS''),
      (GL_MAX_TEXTURE_IMAGE_UNITS, ''GL_MAX_TEXTURE_IMAGE_UNITS''),
      (GL_MAX_TEXTURE_SIZE, ''GL_MAX_TEXTURE_SIZE''),
      (GL_MAX_VARYING_FLOATS, ''GL_MAX_VARYING_FLOATS''),
      (GL_MAX_VERTEX_ATTRIBS, ''GL_MAX_VERTEX_ATTRIBS''),
      (GL_MAX_VERTEX_TEXTURE_IMAGE_UNITS, ''GL_MAX_VERTEX_TEXTURE_IMAGE_UNITS''),
      (GL_MAX_VERTEX_UNIFORM_COMPONENTS, ''GL_MAX_VERTEX_UNIFORM_COMPONENTS''),
      (GL_MAX_VIEWPORT_DIMS, ''GL_MAX_VIEWPORT_DIMS''),
      (GL_STEREO, ''GL_STEREO'')]"

text \<open>
  The four query forms. Each makes its OpenGL call on the enum of the table entry and logs
  the label of the entry with what the call answered: a string, one integer, two integers,
  or a boolean cast to \<^verbatim>\<open>GLint\<close>.
\<close>

definition query_string :: "env \<Rightarrow> nat \<Rightarrow> world \<Rightarrow> world" where
  "query_string e i w =
     snd (log_to_debug_file e g_logfilename
            [Str (snd (params ! i)), Str (gl_string e (fst (params ! i)))]
            (emit (GlGetString (fst (params ! i))) w))"

definition query_integer :: "env \<Rightarrow> nat \<Rightarrow> world \<Rightarrow> world" where
  "query_integer e i w =
     (let val = gl_integer e (fst (params ! i)) 0
      in snd (log_to_debug_file e g_logfilename [Str (snd (params ! i)), Num val]
                (emit (GlGetIntegerv (fst (params ! i))) w)))"

definition query_two_integers :: "env \<Rightarrow> nat \<Rightarrow> world \<Rightarrow> world" where
  "query_two_integers e i w =
     (let dim0 = gl_integer e (fst (params ! i)) 0;
          dim1 = gl_integer e (fst (params ! i)) 1
      in snd (log_to_debug_file e g_logfilename [Str (snd (params ! i)), Num dim0, Num dim1]
                (emit (GlGetIntegerv (fst (params ! i))) w)))"

definition query_boolean :: "env \<Rightarrow> nat \<Rightarrow> world \<Rightarrow> world" where
  "query_boolean e i w =
     (let flag = gl_boolean e (fst (params ! i))
      in snd (log_to_debug_file e g_logfilename
                [Str (snd (params ! i)), Num (if flag then 1 else 0)]
                (emit (GlGetBooleanv (fst (params ! i))) w)))"

definition query_extension :: "env \<Rightarrow> int \<Rightarrow> world \<Rightarrow> world" where
  "query_extension e i w =
     snd (log_to_debug_file e g_logfilename
            [Num (i + 1), Str '': '', Str (gl_stringi e GL_EXTENSIONS i)]
            (emit (GlGetStringi GL_EXTENSIONS i) w))"

definition query_gl_context :: "env \<Rightarrow> world \<Rightarrow> world" where
  "query_gl_context e w =
     (let w1 = snd (log_to_debug_file e g_logfilename
                      [Str ''GL version information and context parameters:''] w);
          w2 = fold (query_string e) [0..<4] w1;
          w3 = fold (query_integer e) [4..<19] w2;
          w4 = query_two_integers e 19 w3;
          w5 = query_boolean e 20 w4;
          w6 = snd (log_to_debug_file e g_logfilename [Str ''-----------------------------''] w5);
          maxExtensions = gl_integer e GL_NUM_EXTENSIONS 0;
          w7 = emit (GlGetIntegerv GL_NUM_EXTENSIONS) w6
      in fold (query_extension e) [0..maxExtensions - 1] w7)"

subsection \<open>The OpenGL state, the frame loop and main\<close>

definition init_gl_state :: "env \<Rightarrow> handle \<Rightarrow> world \<Rightarrow> world" where
  "init_gl_state e pwin w =
     (let w1 = glClearColor 0 1 0 1 w;
          w2 = emit (GlfwGetFramebufferSize pwin) w1
      in fbsize_cb pwin (fst (framebuffer_size e)) (snd (framebuffer_size e)) w2)"

definition draw :: "handle \<Rightarrow> world \<Rightarrow> world" where
  "draw pWindow w = emit (GlfwSwapBuffers pWindow) (glClear GL_COLOR_BUFFER_BIT w)"

definition update :: "env \<Rightarrow> handle \<Rightarrow> world \<Rightarrow> world" where
  "update e pwin w = glfwPollEvents e w"

definition cleanup :: "handle \<Rightarrow> world \<Rightarrow> world" where
  "cleanup pwin w = emit GlfwTerminate w"

definition glfwWindowShouldClose :: "handle \<Rightarrow> world \<Rightarrow> bool \<times> world" where
  "glfwWindowShouldClose pwin w = (should_close w, emit (GlfwWindowShouldClose pwin) w)"

text \<open>
  The \<^verbatim>\<open>while\<close> loop of \<^verbatim>\<open>main\<close>. It runs for as long as the close flag is down, which
  may be for ever: the fuel bounds the number of iterations, and \<open>Unfinished\<close> is the
  world of a loop that is still running when the fuel is spent.
\<close>

fun frame_loop :: "env \<Rightarrow> nat \<Rightarrow> handle \<Rightarrow> world \<Rightarrow> unit outcome" where
  "frame_loop e 0 pWindow w = Unfinished w"
| "frame_loop e (Suc fuel) pWindow w =
     (case glfwWindowShouldClose pWindow w of
        (closing, w1) \<Rightarrow>
          if closing then Returns () w1
          else frame_loop e fuel pWindow (update e pWindow (draw pWindow w1)))"

definition main_title :: string where
  "main_title = ''init-1: OpenGL 4.5 - ''
     @ ''create debug log file and clear colorbuffer with constant color''"

definition main :: "env \<Rightarrow> nat \<Rightarrow> world \<Rightarrow> int outcome" where
  "main e fuel w =
     (let w1 = snd (create_log_file e w) in
      case create_gl_context e 2400 1350 main_title w1 of
        Exits status w2 \<Rightarrow> Exits status w2
      | Unfinished w2 \<Rightarrow> Unfinished w2
      | Returns pWindow w2 \<Rightarrow>
          (case init_gl_loader e w2 of
             (loaded, w3) \<Rightarrow>
               if \<not> loaded then
                 Exits EXIT_FAILURE (emit GlfwTerminate (emit (GlfwDestroyWindow pWindow) w3))
               else
                 (let w4 = query_gl_context e w3;
                      w5 = init_gl_state e pWindow w4
                  in case frame_loop e fuel pWindow w5 of
                       Returns u w6 \<Rightarrow> Returns 0 (cleanup pWindow w6)
                     | Exits status w6 \<Rightarrow> Exits status w6
                     | Unfinished w6 \<Rightarrow> Unfinished w6)))"

subsection \<open>Reading a run\<close>

text \<open>
  The calls that a step added to the trace, the number of line ends in a text, and what
  one call of the logging helper writes and does.
\<close>

definition new_calls :: "world \<Rightarrow> world \<Rightarrow> call list" where
  "new_calls w w' = drop (length (calls w)) (calls w')"

definition line_count :: "string \<Rightarrow> nat" where
  "line_count t = count_list t (CHR 0x0A)"

definition log_text :: "arg list \<Rightarrow> string" where
  "log_text args = concat (map (\<lambda>a. show_arg a @ '' '') args) @ newline"

definition could_not_open :: "string \<Rightarrow> call" where
  "could_not_open name =
     CerrWrite (''ERROR: could not open log file '' @ name @ '' for writing'' @ newline)"

definition log_calls :: "string \<Rightarrow> bool \<Rightarrow> arg list \<Rightarrow> call list" where
  "log_calls name ok args =
     OfstreamOpen name Mode_app ok #
       (if ok then map (\<lambda>a. OfstreamWrite name (show_arg a @ '' '')) args
                     @ [OfstreamWrite name newline, OfstreamClose name]
        else [could_not_open name])"

definition is_log_io :: "call \<Rightarrow> bool" where
  "is_log_io c =
     (case c of
        OfstreamOpen name mode ok \<Rightarrow> mode = Mode_app
      | OfstreamWrite name t \<Rightarrow> True
      | OfstreamClose name \<Rightarrow> True
      | CerrWrite t \<Rightarrow> True
      | _ \<Rightarrow> False)"

definition is_open :: "call \<Rightarrow> bool" where
  "is_open c = (case c of OfstreamOpen name mode ok \<Rightarrow> True | _ \<Rightarrow> False)"

definition is_append_open :: "call \<Rightarrow> bool" where
  "is_append_open c = (case c of OfstreamOpen name mode ok \<Rightarrow> mode = Mode_app | _ \<Rightarrow> False)"

definition is_set_should_close :: "call \<Rightarrow> bool" where
  "is_set_should_close c = (case c of GlfwSetWindowShouldClose pwin v \<Rightarrow> True | _ \<Rightarrow> False)"

definition is_clear_color :: "call \<Rightarrow> bool" where
  "is_clear_color c = (case c of GlClearColor r g b a \<Rightarrow> True | _ \<Rightarrow> False)"

text \<open>The calls a callback of the program can make, and those of one turn of the frame loop.\<close>

definition is_callback_call :: "call \<Rightarrow> bool" where
  "is_callback_call c =
     (is_log_io c \<or>
      (case c of
         GlViewport x y width height \<Rightarrow> True
       | CoutWrite t \<Rightarrow> True
       | GlfwSetWindowShouldClose pwin v \<Rightarrow> True
       | _ \<Rightarrow> False))"

definition is_frame_call :: "call \<Rightarrow> bool" where
  "is_frame_call c =
     (is_callback_call c \<or>
      (case c of
         GlfwWindowShouldClose pwin \<Rightarrow> True
       | GlClear buffers \<Rightarrow> True
       | GlfwSwapBuffers pwin \<Rightarrow> True
       | GlfwPollEvents \<Rightarrow> True
       | _ \<Rightarrow> False))"

definition is_loop_call :: "call \<Rightarrow> bool" where
  "is_loop_call c =
     (case c of
        GlfwWindowShouldClose pwin \<Rightarrow> True
      | GlClear buffers \<Rightarrow> True
      | GlfwSwapBuffers pwin \<Rightarrow> True
      | GlfwPollEvents \<Rightarrow> True
      | _ \<Rightarrow> False)"

text \<open>
  A step \<open>grows\<close> when it only adds calls of a given kind and only appends to the log file.
  It is \<open>quiet\<close> when, moreover, it leaves the clear colour as it is and every
  \<^verbatim>\<open>glClear\<close> it calls fills the colour buffer with that colour.
\<close>

definition is_clear :: "call \<Rightarrow> bool" where
  "is_clear c = (case c of GlClear buffers \<Rightarrow> True | _ \<Rightarrow> False)"

definition grows :: "(call \<Rightarrow> bool) \<Rightarrow> world \<Rightarrow> world \<Rightarrow> bool" where
  "grows A w w' =
     ((\<exists>cs. calls w' = calls w @ cs \<and> list_all A cs)
      \<and> prefix (file_text w g_logfilename) (file_text w' g_logfilename))"

definition quiet :: "(call \<Rightarrow> bool) \<Rightarrow> world \<Rightarrow> world \<Rightarrow> bool" where
  "quiet A w w' =
     (grows A w w'
      \<and> clear_color w' = clear_color w
      \<and> cleared w' =
          cleared w @ replicate (length (filter is_clear (new_calls w w'))) (clear_color w))"

text \<open>
  The calls that the initialisation may make after the log file is created: none of the
  frame loop, no \<^verbatim>\<open>glClearColor\<close>, and no open of a file other than in append mode.
\<close>

definition is_setup_call :: "call \<Rightarrow> bool" where
  "is_setup_call c =
     (\<not> is_loop_call c \<and> \<not> is_clear_color c \<and> (is_append_open c \<or> \<not> is_open c))"

text \<open>How \<open>main\<close> ends once the frame loop has ended.\<close>

definition finish :: "handle \<Rightarrow> unit outcome \<Rightarrow> int outcome" where
  "finish pWindow r =
     (case r of
        Returns u w \<Rightarrow> Returns 0 (cleanup pWindow w)
      | Exits status w \<Rightarrow> Exits status w
      | Unfinished w \<Rightarrow> Unfinished w)"

text \<open>
  The steps of the initialisation. Registering the error callback is not among them: the
  event callbacks are those of the window (framebuffer size, key, mouse button, cursor
  position, scroll).
\<close>

datatype init_step =
  LibraryInit | WindowCreation | CallbackRegistration | LoaderInit | CapabilityQuery

definition init_step_of :: "call \<Rightarrow> init_step option" where
  "init_step_of c =
     (case c of
        GlfwInit \<Rightarrow> Some LibraryInit
      | GlfwCreateWindow width height title \<Rightarrow> Some WindowCreation
      | GlfwSetFramebufferSizeCallback pwin \<Rightarrow> Some CallbackRegistration
      | GlfwSetKeyCallback pwin \<Rightarrow> Some CallbackRegistration
      | GlfwSetMouseButtonCallback pwin \<Rightarrow> Some CallbackRegistration
      | GlfwSetCursorPosCallback pwin \<Rightarrow> Some CallbackRegistration
      | GlfwSetScrollCallback pwin \<Rightarrow> Some CallbackRegistration
      | GlewInit \<Rightarrow> Some LoaderInit
      | GlGetString name \<Rightarrow> Some CapabilityQuery
      | GlGetIntegerv name \<Rightarrow> Some CapabilityQuery
      | GlGetBooleanv name \<Rightarrow> Some CapabilityQuery
      | GlGetStringi name i \<Rightarrow> Some CapabilityQuery
      | _ \<Rightarrow> None)"

definition steps_of :: "call list \<Rightarrow> init_step list" where
  "steps_of cs = List.map_filter init_step_of cs"

definition init_order :: "call list \<Rightarrow> init_step list" where
  "init_order cs = remdups_adj (steps_of cs)"

text \<open>The order of the steps as the specification words it.\<close>

definition claimed_init_order :: "init_step list" where
  "claimed_init_order =
     [LibraryInit, WindowCreation, LoaderInit, CapabilityQuery, CallbackRegistration]"

text \<open>The four ways in which the initialisation can fail, and what each leaves behind.\<close>

definition init_succeeds :: "env \<Rightarrow> bool" where
  "init_succeeds e =
     (glfwInit_ok e \<and> createWindow_result e \<noteq> NULL \<and> glewInit_result e = GLEW_OK
        \<and> glew_version_4_5 e)"

definition failure_message :: "env \<Rightarrow> arg list" where
  "failure_message e =
     (if \<not> glfwInit_ok e then
        [Str ''ERROR: Initialization of GLFW has failed - program aborted'']
      else if createWindow_result e = NULL then
        [Str (''ERROR: GLFW is unable to create an OpenGL context.'' @ newline)]
      else if glewInit_result e \<noteq> GLEW_OK then
        [Str ''ERROR: Unable to initialize GLEW '',
         Str (glewErrorString e (glewInit_result e))]
      else [Str (''ERROR: System doesn't support GL 4.5 API'' @ newline)])"

definition teardown_calls :: "env \<Rightarrow> call list" where
  "teardown_calls e =
     (if \<not> glfwInit_ok e then []
      else if createWindow_result e = NULL then [GlfwTerminate]
      else [GlfwDestroyWindow (createWindow_result e), GlfwTerminate])"

definition failure_log_attempt :: "env \<Rightarrow> nat" where
  "failure_log_attempt e =
     (if \<not> glfwInit_ok e then 1 else 2 + length (createWindow_errors e))"

definition failure_steps :: "env \<Rightarrow> init_step list" where
  "failure_steps e =
     (if \<not> glfwInit_ok e then [LibraryInit]
      else if createWindow_result e = NULL then [LibraryInit, WindowCreation]
      else [LibraryInit, WindowCreation] @ replicate 5 CallbackRegistration @ [LoaderInit])"

text \<open>One turn of the frame loop: the test of the close flag, \<open>draw\<close>, \<open>update\<close>.\<close>

definition frame :: "env \<Rightarrow> handle \<Rightarrow> world \<Rightarrow> world" where
  "frame e pWindow w = update e pWindow (draw pWindow (snd (glfwWindowShouldClose pWindow w)))"

definition green :: color where
  "green = (0, 1, 0, 1)"

text \<open>
  The table positions and the query form that the specification gives to each; \<open>query_at\<close>
  runs the form of a position on the entry at that position.
\<close>

datatype query_form = StringQuery | IntegerQuery | DualIntegerQuery | BooleanQuery

definition form_at :: "nat \<Rightarrow> query_form" where
  "form_at i =
     (if i \<le> 3 then StringQuery
      else if i \<le> 18 then IntegerQuery
      else if i = 19 then DualIntegerQuery
      else BooleanQuery)"

definition query_at :: "env \<Rightarrow> nat \<Rightarrow> world \<Rightarrow> world" where
  "query_at e i w =
     (case form_at i of
        StringQuery \<Rightarrow> query_string e i w
      | IntegerQuery \<Rightarrow> query_integer e i w
      | DualIntegerQuery \<Rightarrow> query_two_integers e i w
      | BooleanQuery \<Rightarrow> query_boolean e i w)"

definition form_call :: "query_form \<Rightarrow> glenum \<Rightarrow> call" where
  "form_call f name =
     (case f of
        StringQuery \<Rightarrow> GlGetString name
      | IntegerQuery \<Rightarrow> GlGetIntegerv name
      | DualIntegerQuery \<Rightarrow> GlGetIntegerv name
      | BooleanQuery \<Rightarrow> GlGetBooleanv name)"

definition form_values :: "env \<Rightarrow> query_form \<Rightarrow> glenum \<Rightarrow> arg list" where
  "form_values e f name =
     (case f of
        StringQuery \<Rightarrow> [Str (gl_string e name)]
      | IntegerQuery \<Rightarrow> [Num (gl_integer e name 0)]
      | DualIntegerQuery \<Rightarrow> [Num (gl_integer e name 0), Num (gl_integer e name 1)]
      | BooleanQuery \<Rightarrow> [Num (if gl_boolean e name then 1 else 0)])"

subsection \<open>Example environments\<close>

definition always :: "nat \<Rightarrow> bool" where "always n = True"
definition never :: "nat \<Rightarrow> bool" where "never n = False"
definition no_files :: "string \<Rightarrow> string option" where "no_files name = None"
definition no_text :: "'a \<Rightarrow> string" where "no_text x = []"
definition no_text2 :: "'a \<Rightarrow> 'b \<Rightarrow> string" where "no_text2 x y = []"
definition zeros :: "glenum \<Rightarrow> nat \<Rightarrow> int" where "zeros name k = 0"
definition falses :: "glenum \<Rightarrow> bool" where "falses name = False"

text \<open>The user presses ESC while the second frame is shown.\<close>

definition escape_at_second_poll :: "nat \<Rightarrow> event list" where
  "escape_at_second_poll n = (if n = 1 then [KeyEvent GLFW_KEY_ESCAPE 9 GLFW_PRESS 0] else [])"

definition env_ok :: env where
  "env_ok = \<lparr>can_open = always, ctime_text = ''Mon Nov  2 14:59:00 2026'',
     build_date = ''Nov  2 2026'', build_time = ''14:00:00'', debug = False,
     show_double = no_text, glfwInit_ok = True, glfwVersionString = ''3.3.8'',
     createWindow_errors = [], createWindow_result = 1, framebuffer_size = (2400, 1350),
     poll_events = escape_at_second_poll, glewInit_result = GLEW_OK,
     glewErrorString = no_text, glewVersion = ''2.1.0'', glew_version_4_5 = True,
     gl_string = no_text, gl_integer = zeros, gl_boolean = falses, gl_stringi = no_text2\<rparr>"

text \<open>A value that holds a line end, and an environment without OpenGL 4.5.\<close>

definition two_line_value :: "arg list" where
  "two_line_value = [Str (''first'' @ newline @ ''second'')]"

definition env_old_gl :: env where
  "env_old_gl = env_ok\<lparr>glew_version_4_5 := False\<rparr>"

text \<open>An environment in which GLFW fails to initialise and no file can be opened.\<close>

definition env_no_glfw_no_log :: env where
  "env_no_glfw_no_log = env_ok\<lparr>can_open := never, glfwInit_ok := False\<rparr>"

text \<open>The world right after the context is created, in the environment \<open>env_ok\<close>.\<close>

definition window_ready :: world where
  "window_ready = world_of (create_gl_context env_ok 2400 1350 main_title (boot no_files))"

section \<open>Basic facts\<close>

lemma emit_sel [simp]:
  "calls (emit c w) = calls w @ [c]"
  "fs (emit c w) = fs w"
  "opens (emit c w) = opens w"
  "polls (emit c w) = polls w"
  "window (emit c w) = window w"
  "should_close (emit c w) = should_close w"
  "error_cb_set (emit c w) = error_cb_set w"
  "fbsize_cb_set (emit c w) = fbsize_cb_set w"
  "key_cb_set (emit c w) = key_cb_set w"
  "mousebutton_cb_set (emit c w) = mousebutton_cb_set w"
  "mousepos_cb_set (emit c w) = mousepos_cb_set w"
  "mousescroll_cb_set (emit c w) = mousescroll_cb_set w"
  "clear_color (emit c w) = clear_color w"
  "viewport (emit c w) = viewport w"
  "cleared (emit c w) = cleared w"
  by (simp_all add: emit_def)

lemma new_calls_append [simp]: "calls w' = calls w @ cs \<Longrightarrow> new_calls w w' = cs"
  by (simp add: new_calls_def)

lemma cout_debug_sel [simp]:
  "should_close (cout_debug e t w) = should_close w"
  "calls (cout_debug e t w) = calls w @ (if debug e then [CoutWrite t] else [])"
  by (simp_all add: cout_debug_def)

lemma env_ok_sel [simp]:
  "can_open env_ok = always" "debug env_ok = False" "glfwInit_ok env_ok"
  "createWindow_errors env_ok = []" "createWindow_result env_ok = 1"
  "glewInit_result env_ok = GLEW_OK" "glew_version_4_5 env_ok"
  "poll_events env_ok = escape_at_second_poll" "gl_integer env_ok = zeros"
  "gl_boolean env_ok = falses" "framebuffer_size env_ok = (2400, 1350)"
  by (simp_all add: env_ok_def)

section \<open>The keyboard callback\<close>

text \<open>
  Claim C8. After \<open>key_cb\<close> the close flag of the window is up if the key is ESC and the
  action is a press, and is what it was before for every other key and action; and
  \<open>key_cb\<close> calls \<^verbatim>\<open>glfwSetWindowShouldClose\<close> in that case only, once, with \<^verbatim>\<open>GLFW_TRUE\<close>.
\<close>

theorem key_cb_sets_close_flag_iff_escape_pressed:
  "should_close (key_cb e pwin key scancode action mods w) =
     (if key = GLFW_KEY_ESCAPE \<and> action = GLFW_PRESS then True else should_close w)
   \<and> filter is_set_should_close (new_calls w (key_cb e pwin key scancode action mods w)) =
     (if key = GLFW_KEY_ESCAPE \<and> action = GLFW_PRESS
      then [GlfwSetWindowShouldClose pwin GLFW_TRUE] else [])"
  by (simp add: key_cb_def glfwSetWindowShouldClose_def Let_def GLFW_TRUE_def
        is_set_should_close_def new_calls_def)

section \<open>Context creation\<close>

text \<open>
  Claim C9. Whenever \<open>create_gl_context\<close> returns, the handle it returns is not null: it
  is the handle that \<^verbatim>\<open>glfwCreateWindow\<close> gave, after a successful \<^verbatim>\<open>glfwInit\<close>. When
  \<^verbatim>\<open>glfwInit\<close> fails or \<^verbatim>\<open>glfwCreateWindow\<close> gives a null handle, the function does not
  return: the process exits with \<^verbatim>\<open>EXIT_FAILURE\<close>.
\<close>

theorem create_gl_context_never_returns_null:
  "(\<forall>pwin w'. create_gl_context e fbwd fbht wintitle w = Returns pwin w' \<longrightarrow>
      pwin \<noteq> NULL \<and> pwin = createWindow_result e \<and> glfwInit_ok e)
   \<and> (\<not> glfwInit_ok e \<or> createWindow_result e = NULL \<longrightarrow>
        (\<exists>w'. create_gl_context e fbwd fbht wintitle w = Exits EXIT_FAILURE w'))"
  by (auto simp: create_gl_context_def glfwCreateWindow_def Let_def split: if_splits)

theorem create_gl_context_never_returns_null_witness:
  "create_gl_context env_ok 2400 1350 main_title (boot no_files) =
     Returns 1 (world_of (create_gl_context env_ok 2400 1350 main_title (boot no_files)))
   \<and> (1::nat) \<noteq> NULL \<and> 1 = createWindow_result env_ok \<and> glfwInit_ok env_ok"
proof -
  have returns: "create_gl_context env_ok 2400 1350 main_title (boot no_files) =
     Returns 1 (world_of (create_gl_context env_ok 2400 1350 main_title (boot no_files)))"
    by (simp add: create_gl_context_def glfwCreateWindow_def Let_def NULL_def)
  with create_gl_context_never_returns_null
         [of env_ok 2400 1350 main_title "boot no_files"]
  show ?thesis by blast
qed

section \<open>Facts about the logging helper\<close>

lemma ofstream_put_sel [simp]:
  "calls (ofstream_put name t w) = calls w @ [OfstreamWrite name t]"
  "fs (ofstream_put name t w) = (fs w)(name \<mapsto> file_text w name @ t)"
  "opens (ofstream_put name t w) = opens w"
  "polls (ofstream_put name t w) = polls w"
  "window (ofstream_put name t w) = window w"
  "should_close (ofstream_put name t w) = should_close w"
  "error_cb_set (ofstream_put name t w) = error_cb_set w"
  "fbsize_cb_set (ofstream_put name t w) = fbsize_cb_set w"
  "key_cb_set (ofstream_put name t w) = key_cb_set w"
  "mousebutton_cb_set (ofstream_put name t w) = mousebutton_cb_set w"
  "mousepos_cb_set (ofstream_put name t w) = mousepos_cb_set w"
  "mousescroll_cb_set (ofstream_put name t w) = mousescroll_cb_set w"
  "clear_color (ofstream_put name t w) = clear_color w"
  "viewport (ofstream_put name t w) = viewport w"
  "cleared (ofstream_put name t w) = cleared w"
  by (simp_all add: ofstream_put_def)

lemma fold_ofstream_put:
  "fold (\<lambda>a. ofstream_put name (show_arg a @ '' '')) args w =
     (if args = [] then w else
     w\<lparr>calls := calls w @ map (\<lambda>a. OfstreamWrite name (show_arg a @ '' '')) args,
       fs := (fs w)(name \<mapsto> file_text w name @ concat (map (\<lambda>a. show_arg a @ '' '') args))\<rparr>)"
proof (induction args arbitrary: w)
  case Nil
  show ?case by simp
next
  case (Cons a args)
  show ?case
    by (simp add: Cons.IH file_text_def)
qed

lemma log_to_debug_file_eq:
  "log_to_debug_file e name args w =
     (can_open e (opens w),
      w\<lparr>calls := calls w @ log_calls name (can_open e (opens w)) args,
        opens := Suc (opens w),
        fs := (if can_open e (opens w)
               then (fs w)(name \<mapsto> file_text w name @ log_text args) else fs w)\<rparr>)"
  apply (simp add: log_to_debug_file_def ofstream_open_def Let_def fold_ofstream_put log_calls_def
        log_text_def ofstream_close_def could_not_open_def)
  apply (intro conjI impI world.equality; simp add: file_text_def)
  done

lemma log_sel [simp]:
  "fst (log_to_debug_file e name args w) = can_open e (opens w)"
  "calls (snd (log_to_debug_file e name args w)) =
     calls w @ log_calls name (can_open e (opens w)) args"
  "opens (snd (log_to_debug_file e name args w)) = Suc (opens w)"
  "polls (snd (log_to_debug_file e name args w)) = polls w"
  "window (snd (log_to_debug_file e name args w)) = window w"
  "should_close (snd (log_to_debug_file e name args w)) = should_close w"
  "error_cb_set (snd (log_to_debug_file e name args w)) = error_cb_set w"
  "fbsize_cb_set (snd (log_to_debug_file e name args w)) = fbsize_cb_set w"
  "key_cb_set (snd (log_to_debug_file e name args w)) = key_cb_set w"
  "mousebutton_cb_set (snd (log_to_debug_file e name args w)) = mousebutton_cb_set w"
  "mousepos_cb_set (snd (log_to_debug_file e name args w)) = mousepos_cb_set w"
  "mousescroll_cb_set (snd (log_to_debug_file e name args w)) = mousescroll_cb_set w"
  "clear_color (snd (log_to_debug_file e name args w)) = clear_color w"
  "viewport (snd (log_to_debug_file e name args w)) = viewport w"
  "cleared (snd (log_to_debug_file e name args w)) = cleared w"
  by (simp_all add: log_to_debug_file_eq)

lemma log_file_text:
  "file_text (snd (log_to_debug_file e name args w)) name' =
     (if can_open e (opens w) \<and> name' = name then file_text w name @ log_text args
      else file_text w name')"
  by (simp add: log_to_debug_file_eq file_text_def)

lemma create_log_file_eq:
  "create_log_file e w =
     (if can_open e (opens w) then
        (True,
         w\<lparr>calls := calls w @
              [OfstreamOpen g_logfilename Mode_out True, StdTime, StdCtime,
               OfstreamWrite g_logfilename
                 (''OpenGL Application Log File local time: '' @ ctime_text e @ newline),
               OfstreamWrite g_logfilename
                 (''Build version: '' @ build_date e @ '' '' @ build_time e
                    @ newline @ newline),
               OfstreamClose g_logfilename],
            opens := Suc (opens w),
            fs := (fs w)(g_logfilename \<mapsto>
                     ''OpenGL Application Log File local time: '' @ ctime_text e @ newline
                       @ ''Build version: '' @ build_date e @ '' '' @ build_time e
                       @ newline @ newline)\<rparr>)
      else
        (False,
         w\<lparr>calls := calls w @
              [OfstreamOpen g_logfilename Mode_out False, could_not_open g_logfilename],
            opens := Suc (opens w)\<rparr>))"
  apply (simp add: create_log_file_def ofstream_open_def Let_def ofstream_close_def
      could_not_open_def)
  apply (intro conjI impI world.equality; simp add: file_text_def)
  done

lemma line_count_append [simp]: "line_count (s @ t) = line_count s + line_count t"
  by (simp add: line_count_def)

lemma line_count_log_text:
  "line_count (log_text args) = 1 + sum_list (map (\<lambda>a. line_count (show_arg a)) args)"
  by (induction args) (simp_all add: log_text_def line_count_def newline_def)


lemma digit_char_not_newline:
  assumes "d < 10"
  shows "digit_char d \<noteq> CHR 0x0A"
proof
  assume "digit_char d = CHR 0x0A"
  then have "of_char (digit_char d) = (of_char (CHR 0x0A) :: nat)"
    by simp
  with assms show False
    by (simp add: digit_char_def)
qed

lemma line_count_digits: "line_count (digits n) = 0"
proof (induction n rule: digits.induct)
  case (1 n)
  show ?case
  proof (cases "n < 10")
    case True
    then show ?thesis
      using digit_char_not_newline [of n]
      by (subst digits.simps) (simp add: line_count_def)
  next
    case False
    moreover have "digit_char (n mod 10) \<noteq> CHR 0x0A"
      by (rule digit_char_not_newline) simp
    ultimately show ?thesis
      using "1.IH" by (subst digits.simps) (simp add: line_count_def)
  qed
qed

lemma line_count_show_int: "line_count (show_int i) = 0"
  using line_count_digits by (simp add: show_int_def line_count_def)


lemma boot_sel [simp]:
  "calls (boot files) = []" "fs (boot files) = files" "opens (boot files) = 0"
  "polls (boot files) = 0" "should_close (boot files) = False"
  "clear_color (boot files) = (0, 0, 0, 0)" "cleared (boot files) = []"
  "error_cb_set (boot files) = False" "key_cb_set (boot files) = False"
  by (simp_all add: boot_def)

lemma file_text_boot [simp]: "file_text (boot no_files) name = []"
  by (simp add: file_text_def no_files_def)

section \<open>The log file\<close>

text \<open>
  Claim C6. \<open>create_log_file\<close> opens the log file in mode \<^verbatim>\<open>out\<close>, which empties it. When
  the open succeeds, it reads the time, writes the line of the time stamp and the line of
  the build stamp (and an empty line), closes the file and returns \<^verbatim>\<open>GL_TRUE\<close>: the file
  then holds these lines and nothing of what it held before. When the open fails, it
  writes one message to standard error, returns \<^verbatim>\<open>GL_FALSE\<close> and changes no file.
\<close>

theorem create_log_file_result:
  "create_log_file e w =
     (if can_open e (opens w) then
        (True,
         w\<lparr>calls := calls w @
              [OfstreamOpen g_logfilename Mode_out True, StdTime, StdCtime,
               OfstreamWrite g_logfilename
                 (''OpenGL Application Log File local time: '' @ ctime_text e @ newline),
               OfstreamWrite g_logfilename
                 (''Build version: '' @ build_date e @ '' '' @ build_time e
                    @ newline @ newline),
               OfstreamClose g_logfilename],
            opens := Suc (opens w),
            fs := (fs w)(g_logfilename \<mapsto>
                     ''OpenGL Application Log File local time: '' @ ctime_text e @ newline
                       @ ''Build version: '' @ build_date e @ '' '' @ build_time e
                       @ newline @ newline)\<rparr>)
      else
        (False,
         w\<lparr>calls := calls w @
              [OfstreamOpen g_logfilename Mode_out False,
               CerrWrite (''ERROR: could not open log file '' @ g_logfilename
                            @ '' for writing'' @ newline)],
            opens := Suc (opens w)\<rparr>))"
  by (simp add: create_log_file_eq could_not_open_def)

text \<open>
  Claim C3, amended. For every list of printable values, \<open>log_to_debug_file\<close> opens the
  file in append mode. When the open succeeds, it appends each value followed by one
  space, then one line end, closes the file and returns true. When the open fails, it
  writes one message to standard error and returns false, with no file changed; in both
  cases it returns to its caller. What it appends is one line when no value holds a line
  end, and one line more for each line end inside a value; a printed integer holds none.
\<close>

theorem log_to_debug_file_result:
  "log_to_debug_file e name args w =
     (if can_open e (opens w) then
        (True,
         w\<lparr>calls := calls w @
              OfstreamOpen name Mode_app True
                # map (\<lambda>a. OfstreamWrite name (show_arg a @ '' '')) args
                @ [OfstreamWrite name newline, OfstreamClose name],
            opens := Suc (opens w),
            fs := (fs w)(name \<mapsto>
                     file_text w name @ concat (map (\<lambda>a. show_arg a @ '' '') args)
                       @ newline)\<rparr>)
      else
        (False,
         w\<lparr>calls := calls w @
              [OfstreamOpen name Mode_app False,
               CerrWrite (''ERROR: could not open log file '' @ name
                            @ '' for writing'' @ newline)],
            opens := Suc (opens w)\<rparr>))
   \<and> line_count (concat (map (\<lambda>a. show_arg a @ '' '') args) @ newline) =
       1 + sum_list (map (\<lambda>a. line_count (show_arg a)) args)
   \<and> line_count (show_arg (Num i)) = 0"
  using line_count_log_text [of args]
  by (simp add: log_to_debug_file_eq log_calls_def log_text_def could_not_open_def
        line_count_show_int)

text \<open>
  The claim C3 as it was stated, that the values are written as one line, fails for a
  value that holds a line end: after one call on an empty file system the file has two.
\<close>

theorem log_to_debug_file_one_line_counterexample:
  "fst (log_to_debug_file env_ok g_logfilename two_line_value (boot no_files))
   \<and> line_count (file_text (snd (log_to_debug_file env_ok g_logfilename two_line_value
                                   (boot no_files))) g_logfilename) = 2"
  by (simp add: log_file_text line_count_log_text always_def two_line_value_def)
    (simp add: line_count_def newline_def)

section \<open>The capability query\<close>

lemma length_params: "length params = 21"
  by (simp add: params_def)

lemma table_positions: "[0..<21] = [0, 1, 2, 3] @ [4..<19] @ [19, 20]"
  by code_simp

lemma first_positions: "[0..<4] = [0, 1, 2, 3]"
  by code_simp

lemma fold_query_integer:
  "\<forall>i \<in> set is. 4 \<le> i \<and> i \<le> 18 \<Longrightarrow> fold (query_at e) is w = fold (query_integer e) is w"
  by (induction "is" arbitrary: w) (simp_all add: query_at_def form_at_def)

lemma fold_query_at:
  "fold (query_at e) [0..<length params] w =
     query_boolean e 20 (query_two_integers e 19
       (fold (query_integer e) [4..<19] (fold (query_string e) [0..<4] w)))"
  by (simp add: length_params table_positions first_positions fold_query_integer)
    (simp add: query_at_def form_at_def)

text \<open>
  Claim C4. The table \<open>params\<close> has 21 entries. \<open>query_gl_context\<close> is one pass over the
  positions 0 to 20 of the table, in order, in which the position alone selects the query
  form: the string form at positions 0 to 3, the form with one integer at positions 4 to
  18, the form with two integers at position 19 and the boolean form at position 20.
  Each form makes its OpenGL call on the enum of the entry and logs the label of the
  entry followed by the values the call gave. (The enumeration of the extensions that
  follows the pass does not read the table.)
\<close>

theorem query_gl_context_dispatches_by_position:
  "length params = 21
   \<and> map form_at [0..<length params] =
       replicate 4 StringQuery @ replicate 15 IntegerQuery @ [DualIntegerQuery, BooleanQuery]
   \<and> query_gl_context e w =
       fold (query_extension e) [0..gl_integer e GL_NUM_EXTENSIONS 0 - 1]
         (emit (GlGetIntegerv GL_NUM_EXTENSIONS)
            (snd (log_to_debug_file e g_logfilename [Str ''-----------------------------'']
               (fold (query_at e) [0..<length params]
                  (snd (log_to_debug_file e g_logfilename
                     [Str ''GL version information and context parameters:''] w))))))
   \<and> query_at e i w =
       snd (log_to_debug_file e g_logfilename
              (Str (snd (params ! i)) # form_values e (form_at i) (fst (params ! i)))
              (emit (form_call (form_at i) (fst (params ! i))) w))"
proof -
  have forms: "map form_at [0..<length params] =
       replicate 4 StringQuery @ replicate 15 IntegerQuery @ [DualIntegerQuery, BooleanQuery]"
    unfolding length_params by code_simp
  have run: "query_gl_context e w =
       fold (query_extension e) [0..gl_integer e GL_NUM_EXTENSIONS 0 - 1]
         (emit (GlGetIntegerv GL_NUM_EXTENSIONS)
            (snd (log_to_debug_file e g_logfilename [Str ''-----------------------------'']
               (fold (query_at e) [0..<length params]
                  (snd (log_to_debug_file e g_logfilename
                     [Str ''GL version information and context parameters:''] w))))))"
    by (simp only: fold_query_at) (simp add: query_gl_context_def Let_def)
  have entry: "query_at e i w =
       snd (log_to_debug_file e g_logfilename
              (Str (snd (params ! i)) # form_values e (form_at i) (fst (params ! i)))
              (emit (form_call (form_at i) (fst (params ! i))) w))"
    by (cases "form_at i")
      (simp_all add: query_at_def form_values_def form_call_def query_string_def
         query_integer_def query_two_integers_def query_boolean_def Let_def)
  from length_params forms run entry show ?thesis by blast
qed

section \<open>Steps that keep the log and the clear colour\<close>

lemma is_clear_iff [simp]: "is_clear c = (\<exists>b. c = GlClear b)"
  by (cases c) (simp_all add: is_clear_def)

lemma grows_refl [simp]: "grows A w w"
  by (simp add: grows_def)

lemma grows_trans:
  assumes "grows A w w'" and "grows A w' w''"
  shows "grows A w w''"
proof -
  from assms obtain cs cs' where
    "calls w' = calls w @ cs" "list_all A cs" "calls w'' = calls w' @ cs'" "list_all A cs'"
    by (auto simp: grows_def)
  then have "calls w'' = calls w @ (cs @ cs') \<and> list_all A (cs @ cs')"
    by simp
  moreover from assms have "prefix (file_text w g_logfilename) (file_text w'' g_logfilename)"
    by (auto simp: grows_def)
  ultimately show ?thesis
    unfolding grows_def by blast
qed

lemma grows_mono: "grows A w w' \<Longrightarrow> (\<And>c. A c \<Longrightarrow> B c) \<Longrightarrow> grows B w w'"
  unfolding grows_def list_all_iff by blast

lemma grows_emit: "A c \<Longrightarrow> grows A w (emit c w)"
  by (simp add: grows_def file_text_def)

lemma grows_new_calls:
  "grows A w w' \<Longrightarrow> calls w' = calls w @ new_calls w w' \<and> list_all A (new_calls w w')"
  by (auto simp: grows_def)

lemma new_calls_trans:
  "grows A w w' \<Longrightarrow> grows A w' w'' \<Longrightarrow> new_calls w w'' = new_calls w w' @ new_calls w' w''"
  by (auto simp: grows_def)

lemma quiet_grows: "quiet A w w' \<Longrightarrow> grows A w w'"
  by (simp add: quiet_def)

lemma quiet_refl [simp]: "quiet A w w"
  by (simp add: quiet_def new_calls_def)

lemma quiet_trans:
  assumes "quiet A w w'" and "quiet A w' w''"
  shows "quiet A w w''"
proof -
  from assms have g: "grows A w w'" "grows A w' w''"
    by (simp_all add: quiet_def)
  from assms have c: "clear_color w' = clear_color w" "clear_color w'' = clear_color w"
    by (simp_all add: quiet_def)
  from assms c have
    "cleared w'' = (cleared w @ replicate (length (filter is_clear (new_calls w w')))
                                  (clear_color w))
       @ replicate (length (filter is_clear (new_calls w' w''))) (clear_color w)"
    by (simp add: quiet_def)
  then have "cleared w'' =
      cleared w @ replicate (length (filter is_clear (new_calls w w''))) (clear_color w)"
    by (simp add: new_calls_trans [OF g] replicate_add)
  with grows_trans [OF g] c show ?thesis
    by (simp add: quiet_def)
qed

lemma quiet_mono: "quiet A w w' \<Longrightarrow> (\<And>c. A c \<Longrightarrow> B c) \<Longrightarrow> quiet B w w'"
  unfolding quiet_def using grows_mono by blast

lemma quiet_emit: "A c \<Longrightarrow> \<not> is_clear c \<Longrightarrow> quiet A w (emit c w)"
  by (simp add: quiet_def grows_emit del: is_clear_iff)

lemma quiet_upd [simp]:
  "quiet A w (w'\<lparr>opens := n\<rparr>) = quiet A w w'"
  "quiet A w (w'\<lparr>polls := n\<rparr>) = quiet A w w'"
  "quiet A w (w'\<lparr>window := h\<rparr>) = quiet A w w'"
  "quiet A w (w'\<lparr>should_close := b\<rparr>) = quiet A w w'"
  "quiet A w (w'\<lparr>error_cb_set := b\<rparr>) = quiet A w w'"
  "quiet A w (w'\<lparr>fbsize_cb_set := b\<rparr>) = quiet A w w'"
  "quiet A w (w'\<lparr>key_cb_set := b\<rparr>) = quiet A w w'"
  "quiet A w (w'\<lparr>mousebutton_cb_set := b\<rparr>) = quiet A w w'"
  "quiet A w (w'\<lparr>mousepos_cb_set := b\<rparr>) = quiet A w w'"
  "quiet A w (w'\<lparr>mousescroll_cb_set := b\<rparr>) = quiet A w w'"
  "quiet A w (w'\<lparr>viewport := v\<rparr>) = quiet A w w'"
  by (simp_all add: quiet_def grows_def file_text_def new_calls_def)

lemma list_all_log_calls: "list_all is_log_io (log_calls name ok args)"
  by (simp add: log_calls_def is_log_io_def could_not_open_def list_all_iff)

lemma log_calls_no_clear [simp]: "filter is_clear (log_calls name ok args) = []"
  by (auto simp: log_calls_def could_not_open_def filter_empty_conv)

lemma quiet_log_io: "quiet is_log_io w (snd (log_to_debug_file e name args w))"
  by (simp add: quiet_def grows_def list_all_log_calls log_file_text)

text \<open>Composition: a quiet step after a quiet run.\<close>

lemma quiet_emitI:
  "quiet A w w' \<Longrightarrow> A c \<Longrightarrow> \<not> is_clear c \<Longrightarrow> quiet A w (emit c w')"
  by (erule quiet_trans) (rule quiet_emit)

lemma quiet_logI:
  "quiet A w w' \<Longrightarrow> (\<And>c. is_log_io c \<Longrightarrow> A c) \<Longrightarrow>
   quiet A w (snd (log_to_debug_file e name args w'))"
  by (erule quiet_trans) (rule quiet_mono [OF quiet_log_io])

lemma quiet_foldI:
  "quiet A w w' \<Longrightarrow> (\<And>x v. quiet A v (f x v)) \<Longrightarrow> quiet A w (fold f xs w')"
proof (induction xs arbitrary: w')
  case Nil
  then show ?case by simp
next
  case (Cons x xs)
  from Cons.prems(1) Cons.prems(2) [of w' x] have "quiet A w (f x w')"
    by (rule quiet_trans)
  with Cons.IH Cons.prems(2) show ?case by simp
qed

lemma quiet_glClearI: "quiet A w w' \<Longrightarrow> A (GlClear b) \<Longrightarrow> quiet A w (glClear b w')"
proof -
  assume q: "quiet A w w'" and a: "A (GlClear b)"
  have "quiet A w' (glClear b w')"
    using a by (simp add: quiet_def grows_def glClear_def file_text_def)
  with q show ?thesis by (rule quiet_trans)
qed


subsection \<open>The callbacks and the frame loop are quiet\<close>

lemma log_io_callback: "is_log_io c \<Longrightarrow> is_callback_call c"
  by (simp add: is_callback_call_def)

lemma callback_frame: "is_callback_call c \<Longrightarrow> is_frame_call c"
  by (simp add: is_frame_call_def)

lemma quiet_cout_debugI:
  "quiet A w w' \<Longrightarrow> A (CoutWrite t) \<Longrightarrow> quiet A w (cout_debug e t w')"
  by (simp add: cout_debug_def quiet_emitI)

lemma quiet_glfw_error_cb: "quiet is_callback_call w (glfw_error_cb e code description w)"
  unfolding glfw_error_cb_def by (intro quiet_logI quiet_refl log_io_callback)

lemma quiet_report_error: "quiet is_callback_call w (report_error e err w)"
  by (simp add: report_error_def quiet_glfw_error_cb)

lemma quiet_fbsize_cb: "quiet is_callback_call w (fbsize_cb pwin width height w)"
  by (simp add: fbsize_cb_def glViewport_def quiet_emit is_callback_call_def)

lemma quiet_key_cb: "quiet is_callback_call w (key_cb e pwin key scancode action mods w)"
  by (simp add: key_cb_def Let_def glfwSetWindowShouldClose_def quiet_emitI quiet_cout_debugI
        is_callback_call_def)

lemma quiet_mousebutton_cb:
  "quiet is_callback_call w (mousebutton_cb e pwin button action mods w)"
  by (simp add: mousebutton_cb_def Let_def quiet_cout_debugI is_callback_call_def)

lemma quiet_mousepos_cb: "quiet is_callback_call w (mousepos_cb e pwin x y w)"
  by (simp add: mousepos_cb_def quiet_cout_debugI is_callback_call_def)

lemma quiet_mousescroll_cb: "quiet is_callback_call w (mousescroll_cb e pwin x y w)"
  by (simp add: mousescroll_cb_def quiet_cout_debugI is_callback_call_def)

lemma quiet_dispatch: "quiet is_callback_call w (dispatch e ev w)"
  by (cases ev)
    (simp_all add: quiet_key_cb quiet_mousebutton_cb quiet_mousepos_cb quiet_mousescroll_cb
       quiet_fbsize_cb quiet_report_error)

lemma quiet_glfwPollEvents: "quiet is_frame_call w (glfwPollEvents e w)"
  unfolding glfwPollEvents_def
  by (rule quiet_foldI)
    (simp_all add: quiet_emit is_frame_call_def quiet_mono [OF quiet_dispatch])

lemma quiet_frame: "quiet is_frame_call w (frame e pWindow w)"
  unfolding frame_def update_def draw_def glfwWindowShouldClose_def
  by (rule quiet_trans [OF _ quiet_glfwPollEvents])
    (simp add: quiet_emitI quiet_glClearI quiet_emit is_frame_call_def)

lemma frame_loop_Suc:
  "frame_loop e (Suc fuel) pWindow w =
     (if should_close w then Returns () (emit (GlfwWindowShouldClose pWindow) w)
      else frame_loop e fuel pWindow (frame e pWindow w))"
  by (simp add: glfwWindowShouldClose_def frame_def)

lemma quiet_frame_loop: "quiet is_frame_call w (world_of (frame_loop e fuel pWindow w))"
proof (induction fuel arbitrary: w)
  case 0
  show ?case by simp
next
  case (Suc fuel)
  show ?case
  proof (cases "should_close w")
    case True
    then show ?thesis
      by (simp add: frame_loop_Suc quiet_emit is_frame_call_def del: frame_loop.simps)
  next
    case False
    with quiet_trans [OF quiet_frame Suc.IH] show ?thesis
      by (simp add: frame_loop_Suc del: frame_loop.simps)
  qed
qed


section \<open>The frame loop\<close>

lemma frame_funpow_Suc: "(frame e p ^^ Suc j) w = (frame e p ^^ j) (frame e p w)"
  by (simp add: funpow_swap1)

lemma frame_loop_closes:
  "\<forall>j<k. \<not> should_close ((frame e p ^^ j) w) \<Longrightarrow> should_close ((frame e p ^^ k) w) \<Longrightarrow>
   k < fuel \<Longrightarrow>
   frame_loop e fuel p w = Returns () (emit (GlfwWindowShouldClose p) ((frame e p ^^ k) w))"
proof (induction k arbitrary: w fuel)
  case 0
  then obtain n where "fuel = Suc n" by (cases fuel) auto
  with 0 show ?case by (simp add: frame_loop_Suc del: frame_loop.simps)
next
  case (Suc k)
  then obtain n where fuel: "fuel = Suc n" and n: "k < n" by (cases fuel) auto
  from Suc.prems(1) have open_now: "\<not> should_close w"
    by (metis funpow_0 zero_less_Suc)
  have later: "\<forall>j<k. \<not> should_close ((frame e p ^^ j) (frame e p w))"
  proof (intro allI impI)
    fix j assume "j < k"
    then have "Suc j < Suc k" by simp
    with Suc.prems(1) have "\<not> should_close ((frame e p ^^ Suc j) w)" by blast
    then show "\<not> should_close ((frame e p ^^ j) (frame e p w))"
      by (simp add: frame_funpow_Suc del: funpow.simps)
  qed
  from Suc.prems(2) have closes: "should_close ((frame e p ^^ k) (frame e p w))"
    by (simp add: frame_funpow_Suc del: funpow.simps)
  from Suc.IH [OF later closes n] open_now fuel show ?case
    by (simp add: frame_loop_Suc frame_funpow_Suc del: frame_loop.simps funpow.simps)
qed

lemma frame_loop_unfinished:
  "\<forall>j<fuel. \<not> should_close ((frame e p ^^ j) w) \<Longrightarrow>
   frame_loop e fuel p w = Unfinished ((frame e p ^^ fuel) w)"
proof (induction fuel arbitrary: w)
  case 0
  show ?case by simp
next
  case (Suc fuel)
  from Suc.prems have open_now: "\<not> should_close w"
    by (metis funpow_0 zero_less_Suc)
  have later: "\<forall>j<fuel. \<not> should_close ((frame e p ^^ j) (frame e p w))"
  proof (intro allI impI)
    fix j assume "j < fuel"
    then have "Suc j < Suc fuel" by simp
    with Suc.prems have "\<not> should_close ((frame e p ^^ Suc j) w)" by blast
    then show "\<not> should_close ((frame e p ^^ j) (frame e p w))"
      by (simp add: frame_funpow_Suc del: funpow.simps)
  qed
  from Suc.IH [OF later] open_now show ?case
    by (simp add: frame_loop_Suc frame_funpow_Suc del: frame_loop.simps funpow.simps)
qed

lemma calls_glfwPollEvents:
  "\<exists>cs. calls (glfwPollEvents e w) = calls w @ GlfwPollEvents # cs \<and> list_all is_callback_call cs"
proof -
  have "quiet is_callback_call (emit GlfwPollEvents w)
          (fold (dispatch e) (poll_events e (polls w))
             ((emit GlfwPollEvents w)\<lparr>polls := Suc (polls w)\<rparr>))"
    by (rule quiet_foldI) (simp_all add: quiet_dispatch)
  then show ?thesis
    by (auto simp: quiet_def grows_def glfwPollEvents_def)
qed

lemma calls_frame:
  "\<exists>cs. calls (frame e p w) =
          calls w @ [GlfwWindowShouldClose p, GlClear GL_COLOR_BUFFER_BIT, GlfwSwapBuffers p,
                     GlfwPollEvents] @ cs
        \<and> list_all is_callback_call cs"
  using calls_glfwPollEvents
          [of e "draw p (snd (glfwWindowShouldClose p w))"]
  by (auto simp: frame_def update_def draw_def glClear_def glfwWindowShouldClose_def)

text \<open>
  Claim C2. One turn of the frame loop, \<open>frame\<close>, tests the close flag, clears the colour
  buffer, swaps the buffers and polls the events, in this order, and every further call
  of the turn is made by a callback that the poll dispatched; the test, the clear and the
  swap leave the flag as it is, so it can only rise during the poll, the last step of a
  turn. If the flag is down at the start of the turns 0 to \<open>k - 1\<close> and up after \<open>k\<close>
  turns, the loop ends right there: it runs exactly \<open>k\<close> turns, makes the test that sees
  the flag and returns (for any fuel above \<open>k\<close>). As long as the flag stays down, the
  loop keeps running turn after turn.
\<close>

theorem frame_loop_runs_until_close_flag:
  "((\<forall>j<k. \<not> should_close ((frame e p ^^ j) w)) \<and> should_close ((frame e p ^^ k) w)
      \<and> k < fuel \<longrightarrow>
      frame_loop e fuel p w =
        Returns () (emit (GlfwWindowShouldClose p) ((frame e p ^^ k) w)))
   \<and> ((\<forall>j<fuel. \<not> should_close ((frame e p ^^ j) w)) \<longrightarrow>
        frame_loop e fuel p w = Unfinished ((frame e p ^^ fuel) w))
   \<and> take 4 (new_calls w (frame e p w)) =
       [GlfwWindowShouldClose p, GlClear GL_COLOR_BUFFER_BIT, GlfwSwapBuffers p,
        GlfwPollEvents]
   \<and> list_all is_callback_call (drop 4 (new_calls w (frame e p w)))
   \<and> should_close (draw p (snd (glfwWindowShouldClose p w))) = should_close w"
proof -
  from calls_frame [of e p w] obtain cs where
    cs: "calls (frame e p w) =
          calls w @ [GlfwWindowShouldClose p, GlClear GL_COLOR_BUFFER_BIT, GlfwSwapBuffers p,
                     GlfwPollEvents] @ cs"
    and cb: "list_all is_callback_call cs"
    by blast
  from cs have new: "new_calls w (frame e p w) =
      [GlfwWindowShouldClose p, GlClear GL_COLOR_BUFFER_BIT, GlfwSwapBuffers p,
       GlfwPollEvents] @ cs"
    by (rule new_calls_append)
  have kept: "should_close (draw p (snd (glfwWindowShouldClose p w))) = should_close w"
    by (simp add: draw_def glClear_def glfwWindowShouldClose_def)
  from frame_loop_closes [of k e p w fuel] frame_loop_unfinished [of fuel e p w] new cb kept
  show ?thesis by simp
qed


lemma window_ready_sel:
  "should_close window_ready = False" "key_cb_set window_ready = True"
  "polls window_ready = 0" "window window_ready = 1"
  by (simp_all add: window_ready_def create_gl_context_def glfwCreateWindow_def Let_def
        NULL_def)

lemma frame_env_ok_sel:
  "polls (frame env_ok p w) = Suc (polls w)"
  "key_cb_set (frame env_ok p w) = key_cb_set w"
  "window (frame env_ok p w) = window w"
  "should_close (frame env_ok p w) = (should_close w \<or> (polls w = 1 \<and> key_cb_set w))"
  by (simp_all add: frame_def update_def draw_def glClear_def glfwWindowShouldClose_def
        glfwPollEvents_def escape_at_second_poll_def key_cb_def Let_def
        glfwSetWindowShouldClose_def GLFW_TRUE_def cout_debug_def)

theorem frame_loop_runs_until_close_flag_witness:
  "\<not> should_close window_ready
   \<and> \<not> should_close (frame env_ok 1 window_ready)
   \<and> should_close (frame env_ok 1 (frame env_ok 1 window_ready))
   \<and> frame_loop env_ok 3 1 window_ready =
       Returns () (emit (GlfwWindowShouldClose 1) (frame env_ok 1 (frame env_ok 1 window_ready)))"
proof -
  have two: "(frame env_ok 1 ^^ 2) window_ready = frame env_ok 1 (frame env_ok 1 window_ready)"
    by (simp add: numeral_2_eq_2)
  have before: "\<forall>j<2. \<not> should_close ((frame env_ok 1 ^^ j) window_ready)"
    by (simp add: less_2_cases_iff frame_env_ok_sel window_ready_sel)
  have at: "should_close ((frame env_ok 1 ^^ 2) window_ready)"
    unfolding two by (simp add: frame_env_ok_sel window_ready_sel)
  from before at frame_loop_runs_until_close_flag [of 2 env_ok 1 window_ready 3] two
  show ?thesis
    by (simp add: less_2_cases_iff)
qed

section \<open>The initialisation\<close>

lemma steps_of_Nil [simp]: "steps_of [] = []"
  by (simp add: steps_of_def)

lemma steps_of_Cons [simp]:
  "steps_of (c # cs) = (case init_step_of c of None \<Rightarrow> steps_of cs | Some s \<Rightarrow> s # steps_of cs)"
  by (cases "init_step_of c") (simp_all add: steps_of_def)

lemma steps_of_append [simp]: "steps_of (cs @ cs') = steps_of cs @ steps_of cs'"
  by (induction cs) (simp_all split: option.split)

lemma steps_of_none: "list_all (\<lambda>c. init_step_of c = None) cs \<Longrightarrow> steps_of cs = []"
  by (induction cs) simp_all

lemma grows_steps:
  assumes "grows A w w'" and "\<And>c. A c \<Longrightarrow> init_step_of c = None"
  shows "steps_of (calls w') = steps_of (calls w)"
proof -
  from assms(1) obtain cs where cs: "calls w' = calls w @ cs" "list_all A cs"
    by (auto simp: grows_def)
  from cs(2) assms(2) have "list_all (\<lambda>c. init_step_of c = None) cs"
    by (auto simp: list_all_iff)
  with cs(1) show ?thesis by (simp add: steps_of_none)
qed

lemma grows_filter:
  assumes "grows A w w'" and "\<And>c. A c \<Longrightarrow> \<not> P c"
  shows "filter P (calls w') = filter P (calls w)"
proof -
  from assms(1) obtain cs where cs: "calls w' = calls w @ cs" "list_all A cs"
    by (auto simp: grows_def)
  from cs(2) assms(2) have "filter P cs = []"
    by (auto simp: list_all_iff filter_empty_conv)
  with cs(1) show ?thesis by simp
qed

lemmas quiet_steps = grows_steps [OF quiet_grows]

lemma log_io_no_step: "is_log_io c \<Longrightarrow> init_step_of c = None"
  by (cases c) (simp_all add: is_log_io_def init_step_of_def)

lemma frame_call_no_step: "is_frame_call c \<Longrightarrow> init_step_of c = None"
  by (cases c)
    (simp_all add: is_frame_call_def is_callback_call_def is_log_io_def init_step_of_def)

lemma log_io_setup: "is_log_io c \<Longrightarrow> is_setup_call c"
  by (cases c)
    (simp_all add: is_log_io_def is_setup_call_def is_loop_call_def is_clear_color_def
       is_append_open_def is_open_def)

lemma steps_of_log_calls [simp]: "steps_of (log_calls name ok args) = []"
  by (rule steps_of_none)
    (use list_all_log_calls [of name ok args] log_io_no_step in \<open>auto simp: list_all_iff\<close>)

lemma steps_log [simp]:
  "steps_of (calls (snd (log_to_debug_file e name args w))) = steps_of (calls w)"
  by simp

lemma quiet_report_error_log: "quiet is_log_io w (report_error e err w)"
  by (simp add: report_error_def glfw_error_cb_def quiet_log_io)

lemma report_error_sel [simp]:
  "error_cb_set (report_error e err w) = error_cb_set w"
  "opens (report_error e err w) = (if error_cb_set w then Suc (opens w) else opens w)"
  by (simp_all add: report_error_def glfw_error_cb_def)

lemma fold_report_error_sel:
  "error_cb_set (fold (report_error e) errs w) = error_cb_set w"
  "error_cb_set w \<Longrightarrow> opens (fold (report_error e) errs w) = opens w + length errs"
  by (induction errs arbitrary: w) simp_all

lemma quiet_fold_report_error: "quiet is_log_io w (fold (report_error e) errs w)"
  by (rule quiet_foldI) (simp_all add: quiet_report_error_log)

lemma setup_call_simps [simp]:
  "is_setup_call GlfwInit" "is_setup_call GlfwGetVersionString"
  "is_setup_call GlfwSetErrorCallback" "is_setup_call (GlfwWindowHint h v)"
  "is_setup_call (GlfwCreateWindow a b t)" "is_setup_call (GlfwMakeContextCurrent p)"
  "is_setup_call (GlfwSetFramebufferSizeCallback p)" "is_setup_call (GlfwSetKeyCallback p)"
  "is_setup_call (GlfwSetMouseButtonCallback p)" "is_setup_call (GlfwSetCursorPosCallback p)"
  "is_setup_call (GlfwSetScrollCallback p)" "is_setup_call (GlfwSetInputMode p m v)"
  "is_setup_call GlfwTerminate" "is_setup_call (GlfwDestroyWindow p)"
  "is_setup_call GlewInit" "is_setup_call (GlewGetErrorString n)"
  "is_setup_call (GlewGetString g)" "is_setup_call (GlGetString g)"
  "is_setup_call (GlGetIntegerv g)" "is_setup_call (GlGetBooleanv g)"
  "is_setup_call (GlGetStringi g i)" "is_setup_call (GlfwGetFramebufferSize p)"
  "is_setup_call (GlViewport x y width height)"
  by (simp_all add: is_setup_call_def is_loop_call_def is_clear_color_def
       is_append_open_def is_open_def)

lemma init_step_simps [simp]:
  "init_step_of GlfwInit = Some LibraryInit"
  "init_step_of (GlfwCreateWindow a b t) = Some WindowCreation"
  "init_step_of (GlfwSetFramebufferSizeCallback p) = Some CallbackRegistration"
  "init_step_of (GlfwSetKeyCallback p) = Some CallbackRegistration"
  "init_step_of (GlfwSetMouseButtonCallback p) = Some CallbackRegistration"
  "init_step_of (GlfwSetCursorPosCallback p) = Some CallbackRegistration"
  "init_step_of (GlfwSetScrollCallback p) = Some CallbackRegistration"
  "init_step_of GlewInit = Some LoaderInit"
  "init_step_of (GlGetString g) = Some CapabilityQuery"
  "init_step_of (GlGetIntegerv g) = Some CapabilityQuery"
  "init_step_of (GlGetBooleanv g) = Some CapabilityQuery"
  "init_step_of (GlGetStringi g i) = Some CapabilityQuery"
  "init_step_of GlfwGetVersionString = None" "init_step_of GlfwSetErrorCallback = None"
  "init_step_of (GlfwWindowHint h v) = None" "init_step_of (GlfwMakeContextCurrent p) = None"
  "init_step_of (GlfwSetInputMode p m v) = None" "init_step_of GlfwTerminate = None"
  "init_step_of (GlfwDestroyWindow p) = None" "init_step_of (GlewGetErrorString n) = None"
  "init_step_of (GlewGetString g) = None" "init_step_of (GlfwGetFramebufferSize p) = None"
  "init_step_of (GlViewport x y width height) = None"
  "init_step_of (GlClearColor r g' b' a') = None"
  "init_step_of (OfstreamOpen name mode ok) = None" "init_step_of (OfstreamWrite name t) = None"
  "init_step_of (OfstreamClose name) = None" "init_step_of (CerrWrite t) = None"
  "init_step_of StdTime = None" "init_step_of StdCtime = None"
  by (simp_all add: init_step_of_def)

lemma quiet_setup_logI:
  "quiet is_setup_call w w' \<Longrightarrow>
   quiet is_setup_call w (snd (log_to_debug_file e name args w'))"
  by (rule quiet_logI) (simp_all add: log_io_setup)

lemma quiet_setup_errorsI:
  "quiet is_setup_call w w' \<Longrightarrow> quiet is_setup_call w (fold (report_error e) errs w')"
  by (erule quiet_trans) (rule quiet_mono [OF quiet_fold_report_error log_io_setup])

lemmas quiet_updI = quiet_upd [THEN iffD2]

lemmas quiet_setup_intros =
  quiet_refl quiet_emitI quiet_setup_logI quiet_setup_errorsI quiet_updI

lemma create_gl_context_no_glfw:
  "\<not> glfwInit_ok e \<Longrightarrow>
   create_gl_context e fbwd fbht wintitle w =
     Exits EXIT_FAILURE
       (snd (log_to_debug_file e g_logfilename
          [Str ''ERROR: Initialization of GLFW has failed - program aborted'']
          (emit GlfwInit w)))"
  by (simp add: create_gl_context_def)

lemma create_gl_context_no_window:
  assumes "glfwInit_ok e" and "createWindow_result e = NULL"
  shows "\<exists>v. create_gl_context e fbwd fbht wintitle w =
           Exits EXIT_FAILURE
             (emit GlfwTerminate
                (snd (log_to_debug_file e g_logfilename
                   [Str (''ERROR: GLFW is unable to create an OpenGL context.'' @ newline)] v)))
         \<and> quiet is_setup_call w v
         \<and> opens v = Suc (opens w) + length (createWindow_errors e)
         \<and> steps_of (calls v) = steps_of (calls w) @ [LibraryInit, WindowCreation]"
  using assms
  apply (simp add: create_gl_context_def glfwCreateWindow_def Let_def)
  apply (rule exI, rule conjI, rule refl)
  apply (simp add: fold_report_error_sel
      quiet_steps [OF quiet_fold_report_error log_io_no_step])
  apply (intro quiet_setup_intros; simp)
  done

lemma create_gl_context_success:
  assumes "glfwInit_ok e" and "createWindow_result e \<noteq> NULL"
  shows "\<exists>v. create_gl_context e fbwd fbht wintitle w = Returns (createWindow_result e) v
         \<and> quiet is_setup_call w v
         \<and> opens v = Suc (opens w) + length (createWindow_errors e)
         \<and> steps_of (calls v) =
             steps_of (calls w) @ [LibraryInit, WindowCreation]
               @ replicate 5 CallbackRegistration"
  using assms
  apply (simp add: create_gl_context_def glfwCreateWindow_def Let_def)
  apply (simp add: fold_report_error_sel numeral_eq_Suc
      quiet_steps [OF quiet_fold_report_error log_io_no_step])
  apply (intro quiet_setup_intros; simp)
  done

lemma init_gl_loader_facts:
  "fst (init_gl_loader e w) = (glewInit_result e = GLEW_OK \<and> glew_version_4_5 e)"
  "quiet is_setup_call w (snd (init_gl_loader e w))"
  "steps_of (calls (snd (init_gl_loader e w))) = steps_of (calls w) @ [LoaderInit]"
  by (auto simp: init_gl_loader_def Let_def intro!: quiet_setup_intros)

lemma init_gl_loader_failure:
  assumes "\<not> (glewInit_result e = GLEW_OK \<and> glew_version_4_5 e)"
  shows "\<exists>v. snd (init_gl_loader e w) =
           snd (log_to_debug_file e g_logfilename
                  (if glewInit_result e \<noteq> GLEW_OK then
                     [Str ''ERROR: Unable to initialize GLEW '',
                      Str (glewErrorString e (glewInit_result e))]
                   else [Str (''ERROR: System doesn't support GL 4.5 API'' @ newline)]) v)
         \<and> quiet is_setup_call w v \<and> opens v = opens w
         \<and> steps_of (calls v) = steps_of (calls w) @ [LoaderInit]"
proof (cases "glewInit_result e = GLEW_OK")
  case True
  with assms show ?thesis
    by (intro exI [of _ "emit GlewInit w"])
      (auto simp: init_gl_loader_def Let_def intro!: quiet_setup_intros)
next
  case False
  then show ?thesis
    by (intro exI [of _ "emit (GlewGetErrorString (glewInit_result e)) (emit GlewInit w)"])
      (auto simp: init_gl_loader_def Let_def intro!: quiet_setup_intros)
qed

lemma steps_fold:
  assumes "\<And>x v. steps_of (calls (f x v)) = steps_of (calls v) @ [s]"
  shows "steps_of (calls (fold f xs w)) = steps_of (calls w) @ replicate (length xs) s"
  by (induction xs arbitrary: w) (simp_all add: assms replicate_append_same)

lemma query_entry_facts:
  "quiet is_setup_call w (query_string e i w)"
  "quiet is_setup_call w (query_integer e i w)"
  "quiet is_setup_call w (query_two_integers e i w)"
  "quiet is_setup_call w (query_boolean e i w)"
  "quiet is_setup_call w (query_extension e j w)"
  "steps_of (calls (query_string e i w)) = steps_of (calls w) @ [CapabilityQuery]"
  "steps_of (calls (query_integer e i w)) = steps_of (calls w) @ [CapabilityQuery]"
  "steps_of (calls (query_two_integers e i w)) = steps_of (calls w) @ [CapabilityQuery]"
  "steps_of (calls (query_boolean e i w)) = steps_of (calls w) @ [CapabilityQuery]"
  "steps_of (calls (query_extension e j w)) = steps_of (calls w) @ [CapabilityQuery]"
  by (auto simp: query_string_def query_integer_def query_two_integers_def query_boolean_def
        query_extension_def Let_def intro!: quiet_setup_intros)

lemma quiet_setup_foldI:
  "quiet is_setup_call w w' \<Longrightarrow> (\<And>x v. quiet is_setup_call v (f x v)) \<Longrightarrow>
   quiet is_setup_call w (fold f xs w')"
  by (rule quiet_foldI)

lemma query_gl_context_facts:
  "quiet is_setup_call w (query_gl_context e w)"
  "steps_of (calls (query_gl_context e w)) =
     steps_of (calls w)
       @ replicate (22 + nat (gl_integer e GL_NUM_EXTENSIONS 0)) CapabilityQuery"
proof -
  show "quiet is_setup_call w (query_gl_context e w)"
    unfolding query_gl_context_def Let_def
    by (intro quiet_setup_foldI quiet_setup_intros quiet_trans [OF _ query_entry_facts(3)]
          quiet_trans [OF _ query_entry_facts(4)] query_entry_facts)
       simp_all
  have "steps_of (calls (query_gl_context e w)) =
     steps_of (calls w) @ replicate 22 CapabilityQuery
       @ replicate (nat (gl_integer e GL_NUM_EXTENSIONS 0)) CapabilityQuery"
    by (simp add: query_gl_context_def Let_def steps_fold query_entry_facts)
      (simp add: numeral_eq_Suc)
  also have "\<dots> = steps_of (calls w)
       @ replicate (22 + nat (gl_integer e GL_NUM_EXTENSIONS 0)) CapabilityQuery"
    by (simp only: replicate_add)
  finally show "steps_of (calls (query_gl_context e w)) =
     steps_of (calls w)
       @ replicate (22 + nat (gl_integer e GL_NUM_EXTENSIONS 0)) CapabilityQuery" .
qed

section \<open>The run of main\<close>

lemma bootstrap_facts:
  "opens (snd (create_log_file e (boot files))) = 1"
  "steps_of (calls (snd (create_log_file e (boot files)))) = []"
  "filter is_clear_color (calls (snd (create_log_file e (boot files)))) = []"
  "filter is_loop_call (calls (snd (create_log_file e (boot files)))) = []"
  "filter is_clear (calls (snd (create_log_file e (boot files)))) = []"
  "clear_color (snd (create_log_file e (boot files))) = (0, 0, 0, 0)"
  "cleared (snd (create_log_file e (boot files))) = []"
  by (simp_all add: create_log_file_eq could_not_open_def is_clear_color_def is_loop_call_def)

lemma init_gl_state_facts:
  "clear_color (init_gl_state e p w) = green"
  "cleared (init_gl_state e p w) = cleared w"
  "new_calls w (init_gl_state e p w) =
     [GlClearColor 0 1 0 1, GlfwGetFramebufferSize p,
      GlViewport 0 0 (fst (framebuffer_size e)) (snd (framebuffer_size e))]"
  "file_text (init_gl_state e p w) = file_text w"
  by (simp_all add: init_gl_state_def glClearColor_def fbsize_cb_def glViewport_def Let_def
        green_def file_text_def fun_eq_iff)

lemma world_of_finish:
  "world_of (finish p r) =
     (case r of Returns u w \<Rightarrow> cleanup p w | Exits s w \<Rightarrow> w | Unfinished w \<Rightarrow> w)"
  by (cases r) (simp_all add: finish_def)

lemma quiet_finish_frame_loop:
  "quiet (\<lambda>c. is_frame_call c \<or> c = GlfwTerminate) w
     (world_of (finish p (frame_loop e fuel p w)))"
proof -
  have loop: "quiet (\<lambda>c. is_frame_call c \<or> c = GlfwTerminate) w
                (world_of (frame_loop e fuel p w))"
    by (rule quiet_mono [OF quiet_frame_loop]) simp
  show ?thesis
  proof (cases "frame_loop e fuel p w")
    case (Returns u v)
    with loop show ?thesis
      by (simp add: world_of_finish cleanup_def quiet_emitI)
  next
    case (Exits s v)
    with loop show ?thesis by (simp add: world_of_finish)
  next
    case (Unfinished v)
    with loop show ?thesis by (simp add: world_of_finish)
  qed
qed

lemma main_failure:
  assumes "\<not> init_succeeds e"
  shows "\<exists>v. main e fuel (boot files) =
           Exits EXIT_FAILURE
             (fold emit (teardown_calls e)
                (snd (log_to_debug_file e g_logfilename (failure_message e) v)))
         \<and> quiet is_setup_call (snd (create_log_file e (boot files))) v
         \<and> opens v = failure_log_attempt e
         \<and> steps_of (calls v) = failure_steps e"
proof -
  let ?B = "snd (create_log_file e (boot files))"
  consider (glfw) "\<not> glfwInit_ok e"
    | (window) "glfwInit_ok e" "createWindow_result e = NULL"
    | (loader) "glfwInit_ok e" "createWindow_result e \<noteq> NULL"
        "\<not> (glewInit_result e = GLEW_OK \<and> glew_version_4_5 e)"
    using assms by (auto simp: init_succeeds_def)
  then show ?thesis
  proof cases
    case glfw
    then show ?thesis
      by (intro exI [of _ "emit GlfwInit ?B"])
        (simp add: main_def Let_def create_gl_context_no_glfw failure_message_def
           teardown_calls_def failure_log_attempt_def failure_steps_def bootstrap_facts
           quiet_emit)
  next
    case window
    from create_gl_context_no_window [OF window, of 2400 1350 main_title ?B]
    obtain v where v:
      "create_gl_context e 2400 1350 main_title ?B =
         Exits EXIT_FAILURE
           (emit GlfwTerminate
              (snd (log_to_debug_file e g_logfilename
                 [Str (''ERROR: GLFW is unable to create an OpenGL context.'' @ newline)] v)))"
      "quiet is_setup_call ?B v"
      "opens v = Suc (opens ?B) + length (createWindow_errors e)"
      "steps_of (calls v) = steps_of (calls ?B) @ [LibraryInit, WindowCreation]"
      by blast
    with window show ?thesis
      by (intro exI [of _ v])
        (simp add: main_def Let_def failure_message_def teardown_calls_def
           failure_log_attempt_def failure_steps_def bootstrap_facts)
  next
    case loader
    from create_gl_context_success [OF loader(1,2), of 2400 1350 main_title ?B]
    obtain v2 where v2:
      "create_gl_context e 2400 1350 main_title ?B = Returns (createWindow_result e) v2"
      "quiet is_setup_call ?B v2"
      "opens v2 = Suc (opens ?B) + length (createWindow_errors e)"
      "steps_of (calls v2) =
         steps_of (calls ?B) @ [LibraryInit, WindowCreation] @ replicate 5 CallbackRegistration"
      by blast
    from init_gl_loader_failure [OF loader(3), of v2]
    obtain v where v:
      "snd (init_gl_loader e v2) =
         snd (log_to_debug_file e g_logfilename
                (if glewInit_result e \<noteq> GLEW_OK then
                   [Str ''ERROR: Unable to initialize GLEW '',
                    Str (glewErrorString e (glewInit_result e))]
                 else [Str (''ERROR: System doesn't support GL 4.5 API'' @ newline)]) v)"
      "quiet is_setup_call v2 v" "opens v = opens v2"
      "steps_of (calls v) = steps_of (calls v2) @ [LoaderInit]"
      by blast
    have message: "failure_message e =
        (if glewInit_result e \<noteq> GLEW_OK then
           [Str ''ERROR: Unable to initialize GLEW '',
            Str (glewErrorString e (glewInit_result e))]
         else [Str (''ERROR: System doesn't support GL 4.5 API'' @ newline)])"
      using loader by (simp add: failure_message_def)
    have "main e fuel (boot files) =
            Exits EXIT_FAILURE
              (emit GlfwTerminate (emit (GlfwDestroyWindow (createWindow_result e))
                 (snd (init_gl_loader e v2))))"
      using loader(3) v2(1) init_gl_loader_facts(1) [of e v2]
      by (simp add: main_def Let_def case_prod_unfold)
    with loader v v2 message quiet_trans [OF v2(2) v(2)] show ?thesis
      by (intro exI [of _ v])
        (simp add: teardown_calls_def failure_log_attempt_def failure_steps_def
           bootstrap_facts)
  qed
qed


lemma main_success:
  assumes "init_succeeds e"
  shows "\<exists>v. main e fuel (boot files) =
           finish (createWindow_result e)
             (frame_loop e fuel (createWindow_result e)
                (init_gl_state e (createWindow_result e) v))
         \<and> quiet is_setup_call (snd (create_log_file e (boot files))) v
         \<and> steps_of (calls v) =
             [LibraryInit, WindowCreation] @ replicate 5 CallbackRegistration @ [LoaderInit]
               @ replicate (22 + nat (gl_integer e GL_NUM_EXTENSIONS 0)) CapabilityQuery"
proof -
  let ?B = "snd (create_log_file e (boot files))"
  from assms have ok: "glfwInit_ok e" "createWindow_result e \<noteq> NULL"
    "glewInit_result e = GLEW_OK \<and> glew_version_4_5 e"
    by (simp_all add: init_succeeds_def)
  from create_gl_context_success [OF ok(1,2), of 2400 1350 main_title ?B]
  obtain v2 where v2:
    "create_gl_context e 2400 1350 main_title ?B = Returns (createWindow_result e) v2"
    "quiet is_setup_call ?B v2"
    "steps_of (calls v2) =
       steps_of (calls ?B) @ [LibraryInit, WindowCreation] @ replicate 5 CallbackRegistration"
    by blast
  let ?v3 = "snd (init_gl_loader e v2)"
  let ?v = "query_gl_context e ?v3"
  have run: "main e fuel (boot files) =
           finish (createWindow_result e)
             (frame_loop e fuel (createWindow_result e)
                (init_gl_state e (createWindow_result e) ?v))"
    using ok(3) v2(1) init_gl_loader_facts(1) [of e v2]
    by (simp add: main_def Let_def case_prod_unfold finish_def)
  have quiet: "quiet is_setup_call ?B ?v"
    by (rule quiet_trans [OF quiet_trans [OF v2(2) init_gl_loader_facts(2)]
          query_gl_context_facts(1)])
  have steps: "steps_of (calls ?v) =
             [LibraryInit, WindowCreation] @ replicate 5 CallbackRegistration @ [LoaderInit]
               @ replicate (22 + nat (gl_integer e GL_NUM_EXTENSIONS 0)) CapabilityQuery"
    by (simp only: query_gl_context_facts(2) init_gl_loader_facts(3) v2(3) bootstrap_facts(2))
      simp
  from run quiet steps show ?thesis by blast
qed

lemma late_call_no_step: "is_frame_call c \<or> c = GlfwTerminate \<Longrightarrow> init_step_of c = None"
  by (auto simp: frame_call_no_step)

lemma steps_init_gl_state [simp]:
  "steps_of (calls (init_gl_state e p w)) = steps_of (calls w)"
  by (simp add: init_gl_state_def glClearColor_def fbsize_cb_def glViewport_def Let_def)

lemma remdups_adj_same: "remdups_adj (x # replicate m x) = [x]"
  by (induction m) simp_all

lemma remdups_adj_steps:
  "remdups_adj ([LibraryInit, WindowCreation] @ replicate 5 CallbackRegistration @ [LoaderInit]
      @ replicate (22 + n) CapabilityQuery) =
   [LibraryInit, WindowCreation, CallbackRegistration, LoaderInit, CapabilityQuery]"
proof -
  have "22 + n = Suc (21 + n)"
    by simp
  then have split: "replicate (22 + n) CapabilityQuery
      = CapabilityQuery # replicate (21 + n) CapabilityQuery"
    by (simp only: replicate_Suc)
  have five: "replicate 5 CallbackRegistration =
      [CallbackRegistration, CallbackRegistration, CallbackRegistration,
       CallbackRegistration, CallbackRegistration]"
    by (simp add: numeral_eq_Suc)
  show ?thesis
    unfolding split five by (simp add: remdups_adj_same)
qed

lemma main_steps:
  assumes "init_succeeds e"
  shows "steps_of (calls (world_of (main e fuel (boot files)))) =
     [LibraryInit, WindowCreation] @ replicate 5 CallbackRegistration @ [LoaderInit]
       @ replicate (22 + nat (gl_integer e GL_NUM_EXTENSIONS 0)) CapabilityQuery"
proof -
  from main_success [OF assms, of fuel files] obtain v where v:
    "main e fuel (boot files) =
       finish (createWindow_result e)
         (frame_loop e fuel (createWindow_result e)
            (init_gl_state e (createWindow_result e) v))"
    "steps_of (calls v) =
       [LibraryInit, WindowCreation] @ replicate 5 CallbackRegistration @ [LoaderInit]
         @ replicate (22 + nat (gl_integer e GL_NUM_EXTENSIONS 0)) CapabilityQuery"
    by blast
  have "steps_of (calls (world_of (main e fuel (boot files)))) = steps_of (calls v)"
    unfolding v(1)
    by (simp add: quiet_steps [OF quiet_finish_frame_loop late_call_no_step])
  with v(2) show ?thesis by simp
qed

lemma main_init_order:
  assumes "init_succeeds e"
  shows "init_order (calls (world_of (main e fuel (boot files)))) =
     [LibraryInit, WindowCreation, CallbackRegistration, LoaderInit, CapabilityQuery]"
  by (simp only: init_order_def main_steps [OF assms] remdups_adj_steps)

lemma init_succeeds_env_ok: "init_succeeds env_ok"
  by (simp add: init_succeeds_def NULL_def)

text \<open>
  Claim C1, amended. In every run in which the initialisation succeeds, the steps of the
  initialisation are called in this order: the windowing library is initialised
  (\<^verbatim>\<open>glfwInit\<close>), the window and its context are created (\<^verbatim>\<open>glfwCreateWindow\<close>), the five
  event callbacks are registered, the extension loader is initialised (\<^verbatim>\<open>glewInit\<close>), and
  the capabilities are queried (22 queries and one for each extension). The callbacks
  are registered inside \<open>create_gl_context\<close>, before the loader is initialised and before
  any capability is queried, and nothing is registered after the queries.
\<close>

theorem main_initialisation_order:
  "init_succeeds e \<Longrightarrow>
   steps_of (calls (world_of (main e fuel (boot files)))) =
     [LibraryInit, WindowCreation] @ replicate 5 CallbackRegistration @ [LoaderInit]
       @ replicate (22 + nat (gl_integer e GL_NUM_EXTENSIONS 0)) CapabilityQuery
   \<and> init_order (calls (world_of (main e fuel (boot files)))) =
     [LibraryInit, WindowCreation, CallbackRegistration, LoaderInit, CapabilityQuery]"
  by (simp only: main_steps main_init_order)

theorem main_initialisation_order_witness:
  "init_succeeds env_ok
   \<and> init_order (calls (world_of (main env_ok 3 (boot no_files)))) =
       [LibraryInit, WindowCreation, CallbackRegistration, LoaderInit, CapabilityQuery]"
  using init_succeeds_env_ok main_initialisation_order [OF init_succeeds_env_ok, of 3 no_files]
  by simp

text \<open>
  The claim C1 as it was stated puts the registration of the callbacks after the
  capability query. A run in which everything succeeds shows the steps in another order:
  the five registrations come before the loader is initialised.
\<close>

theorem claimed_initialisation_order_counterexample:
  "steps_of (calls (world_of (main env_ok 3 (boot no_files)))) =
     [LibraryInit, WindowCreation, CallbackRegistration, CallbackRegistration,
      CallbackRegistration, CallbackRegistration, CallbackRegistration, LoaderInit]
       @ replicate 22 CapabilityQuery
   \<and> init_order (calls (world_of (main env_ok 3 (boot no_files)))) \<noteq> claimed_init_order"
  using main_steps [OF init_succeeds_env_ok, of 3 no_files]
    main_init_order [OF init_succeeds_env_ok, of 3 no_files]
  by (simp add: claimed_init_order_def zeros_def numeral_eq_Suc)

section \<open>Failure of the initialisation\<close>

lemma fold_emit_sel [simp]:
  "calls (fold emit cs w) = calls w @ cs"
  "fs (fold emit cs w) = fs w"
  "clear_color (fold emit cs w) = clear_color w"
  "cleared (fold emit cs w) = cleared w"
  by (induction cs arbitrary: w) simp_all

lemma file_text_fold_emit [simp]: "file_text (fold emit cs w) = file_text w"
  by (simp add: file_text_def fun_eq_iff)

lemma setup_not_loop: "is_setup_call c \<Longrightarrow> \<not> is_loop_call c"
  by (simp add: is_setup_call_def)

lemma setup_not_clear_color: "is_setup_call c \<Longrightarrow> \<not> is_clear_color c"
  by (simp add: is_setup_call_def)

lemma setup_not_clear: "is_setup_call c \<Longrightarrow> \<not> is_clear c"
  by (auto simp: is_setup_call_def is_loop_call_def)

lemma setup_opens_append: "is_setup_call c \<Longrightarrow> is_append_open c \<or> \<not> is_open c"
  by (simp add: is_setup_call_def)

lemma teardown_steps [simp]: "steps_of (teardown_calls e) = []"
  by (simp add: teardown_calls_def)

lemma list_all_teardown: "list_all is_setup_call (teardown_calls e)"
  by (simp add: teardown_calls_def)

lemma quiet_setup_facts:
  assumes "quiet is_setup_call w w'"
  shows "cleared w' = cleared w" "clear_color w' = clear_color w"
    "filter is_clear_color (calls w') = filter is_clear_color (calls w)"
    "filter is_loop_call (calls w') = filter is_loop_call (calls w)"
    "filter is_clear (calls w') = filter is_clear (calls w)"
proof -
  from assms have g: "grows is_setup_call w w'" by (rule quiet_grows)
  from grows_new_calls [OF g] have "list_all is_setup_call (new_calls w w')" by (rule conjunct2)
  then have "filter is_clear (new_calls w w') = []"
    using setup_not_clear by (auto simp: list_all_iff filter_empty_conv simp del: is_clear_iff)
  with assms show "cleared w' = cleared w"
    by (simp add: quiet_def del: is_clear_iff)
  from assms show "clear_color w' = clear_color w"
    by (simp add: quiet_def)
  show "filter is_clear_color (calls w') = filter is_clear_color (calls w)"
    by (rule grows_filter [OF g setup_not_clear_color])
  show "filter is_loop_call (calls w') = filter is_loop_call (calls w)"
    by (rule grows_filter [OF g setup_not_loop])
  show "filter is_clear (calls w') = filter is_clear (calls w)"
    by (rule grows_filter [OF g setup_not_clear])
qed

lemma quiet_teardown:
  "quiet is_setup_call w w' \<Longrightarrow> quiet is_setup_call w (fold emit (teardown_calls e) w')"
  by (auto simp: teardown_calls_def intro!: quiet_emitI)

lemma main_failure_world:
  assumes "\<not> init_succeeds e"
  shows "\<exists>v. main e fuel (boot files) =
           Exits EXIT_FAILURE
             (fold emit (teardown_calls e)
                (snd (log_to_debug_file e g_logfilename (failure_message e) v)))
         \<and> quiet is_setup_call (snd (create_log_file e (boot files)))
              (fold emit (teardown_calls e)
                 (snd (log_to_debug_file e g_logfilename (failure_message e) v)))
         \<and> opens v = failure_log_attempt e
         \<and> steps_of (calls v) = failure_steps e"
proof -
  from main_failure [OF assms, of fuel files] obtain v where v:
    "main e fuel (boot files) =
       Exits EXIT_FAILURE
         (fold emit (teardown_calls e)
            (snd (log_to_debug_file e g_logfilename (failure_message e) v)))"
    "quiet is_setup_call (snd (create_log_file e (boot files))) v"
    "opens v = failure_log_attempt e" "steps_of (calls v) = failure_steps e"
    by blast
  from v(2) have "quiet is_setup_call (snd (create_log_file e (boot files)))
      (fold emit (teardown_calls e)
         (snd (log_to_debug_file e g_logfilename (failure_message e) v)))"
    by (intro quiet_teardown quiet_setup_logI)
  with v show ?thesis by blast
qed

text \<open>
  Claim C5, amended. Whenever \<^verbatim>\<open>glfwInit\<close> fails, or \<^verbatim>\<open>glfwCreateWindow\<close> gives no window,
  or \<^verbatim>\<open>glewInit\<close> fails, or OpenGL 4.5 is not supported, \<open>main\<close> passes the message of the
  failure to the logging helper, releases what GLFW holds and exits with the status
  \<^verbatim>\<open>EXIT_FAILURE\<close>, which is not zero. The call of the helper and the release are the last
  calls of the run; the helper appends the message to the log file when its open of the
  file succeeds (the message then ends the file), and otherwise only reports to standard
  error that the file could not be opened. No call of the frame loop is ever made, and
  each step of the initialisation that was reached was tried once: there is no retry.
\<close>

theorem main_exits_when_initialisation_fails:
  assumes "\<not> init_succeeds e"
  shows "\<exists>w pre. main e fuel (boot files) = Exits EXIT_FAILURE w \<and> EXIT_FAILURE \<noteq> 0
     \<and> calls w = pre @ log_calls g_logfilename (can_open e (failure_log_attempt e))
                          (failure_message e) @ teardown_calls e
     \<and> (can_open e (failure_log_attempt e) \<longrightarrow>
          suffix (log_text (failure_message e)) (file_text w g_logfilename))
     \<and> filter is_loop_call (calls w) = []
     \<and> steps_of (calls w) = failure_steps e"
proof -
  from main_failure_world [OF assms, of fuel files] obtain v where v:
    "main e fuel (boot files) =
       Exits EXIT_FAILURE
         (fold emit (teardown_calls e)
            (snd (log_to_debug_file e g_logfilename (failure_message e) v)))"
    "quiet is_setup_call (snd (create_log_file e (boot files)))
       (fold emit (teardown_calls e)
          (snd (log_to_debug_file e g_logfilename (failure_message e) v)))"
    "opens v = failure_log_attempt e" "steps_of (calls v) = failure_steps e"
    by blast
  let ?w = "fold emit (teardown_calls e)
              (snd (log_to_debug_file e g_logfilename (failure_message e) v))"
  have trace: "calls ?w = calls v @ log_calls g_logfilename (can_open e (failure_log_attempt e))
                          (failure_message e) @ teardown_calls e"
    by (simp add: v(3))
  have logged: "can_open e (failure_log_attempt e) \<longrightarrow>
          suffix (log_text (failure_message e)) (file_text ?w g_logfilename)"
    by (simp add: log_file_text v(3) suffix_def)
  have no_loop: "filter is_loop_call (calls ?w) = []"
    by (simp only: quiet_setup_facts(4) [OF v(2)] bootstrap_facts)
  have steps: "steps_of (calls ?w) = failure_steps e"
    by (simp add: v(4))
  have status: "EXIT_FAILURE \<noteq> 0"
    by (simp add: EXIT_FAILURE_def)
  show ?thesis
    by (intro exI [of _ ?w] exI [of _ "calls v"] conjI v(1) trace logged no_loop steps status)
qed


lemma env_old_gl_sel [simp]:
  "can_open env_old_gl = always" "glfwInit_ok env_old_gl"
  "createWindow_errors env_old_gl = []" "createWindow_result env_old_gl = 1"
  "glewInit_result env_old_gl = GLEW_OK" "\<not> glew_version_4_5 env_old_gl"
  by (simp_all add: env_old_gl_def env_ok_def)

theorem main_exits_when_initialisation_fails_witness:
  "\<not> init_succeeds env_old_gl
   \<and> (\<exists>w pre. main env_old_gl 0 (boot no_files) = Exits EXIT_FAILURE w
        \<and> calls w = pre @ log_calls g_logfilename True
                            [Str (''ERROR: System doesn't support GL 4.5 API'' @ newline)]
                      @ [GlfwDestroyWindow 1, GlfwTerminate]
        \<and> suffix (log_text [Str (''ERROR: System doesn't support GL 4.5 API'' @ newline)])
             (file_text w g_logfilename)
        \<and> filter is_loop_call (calls w) = []
        \<and> steps_of (calls w) =
             [LibraryInit, WindowCreation, CallbackRegistration, CallbackRegistration,
              CallbackRegistration, CallbackRegistration, CallbackRegistration, LoaderInit])"
proof -
  have fails: "\<not> init_succeeds env_old_gl"
    by (simp add: init_succeeds_def)
  have message: "failure_message env_old_gl =
      [Str (''ERROR: System doesn't support GL 4.5 API'' @ newline)]"
    by (simp add: failure_message_def NULL_def)
  have teardown: "teardown_calls env_old_gl = [GlfwDestroyWindow 1, GlfwTerminate]"
    by (simp add: teardown_calls_def NULL_def)
  have steps: "failure_steps env_old_gl =
      [LibraryInit, WindowCreation, CallbackRegistration, CallbackRegistration,
       CallbackRegistration, CallbackRegistration, CallbackRegistration, LoaderInit]"
    by (simp add: failure_steps_def NULL_def numeral_eq_Suc)
  from main_exits_when_initialisation_fails [OF fails, of 0 no_files] fails
  show ?thesis
    by (simp only: message teardown steps env_old_gl_sel always_def simp_thms)
      (elim exE conjE, intro exI conjI, assumption+)
qed

text \<open>
  The claim C5 as it was stated says that the failure is logged. When GLFW fails to
  initialise and the log file cannot be opened, the process exits with \<^verbatim>\<open>EXIT_FAILURE\<close>
  after these five calls: nothing is written to any file, the log file does not exist,
  and standard error only hears that the log file could not be opened.
\<close>

theorem failure_is_logged_counterexample:
  "\<not> init_succeeds env_no_glfw_no_log
   \<and> main env_no_glfw_no_log 0 (boot no_files) =
       Exits EXIT_FAILURE (world_of (main env_no_glfw_no_log 0 (boot no_files)))
   \<and> calls (world_of (main env_no_glfw_no_log 0 (boot no_files))) =
       [OfstreamOpen g_logfilename Mode_out False, could_not_open g_logfilename, GlfwInit,
        OfstreamOpen g_logfilename Mode_app False, could_not_open g_logfilename]
   \<and> fs (world_of (main env_no_glfw_no_log 0 (boot no_files))) g_logfilename = None"
  by (simp add: env_no_glfw_no_log_def env_ok_def init_succeeds_def main_def
        create_gl_context_no_glfw create_log_file_eq log_to_debug_file_eq never_def
        log_calls_def no_files_def)

section \<open>The log file only grows\<close>

lemma callback_opens_append: "is_callback_call c \<Longrightarrow> is_append_open c \<or> \<not> is_open c"
  by (cases c)
    (simp_all add: is_callback_call_def is_log_io_def is_append_open_def is_open_def)

lemma late_opens_append:
  "is_frame_call c \<or> c = GlfwTerminate \<Longrightarrow> is_append_open c \<or> \<not> is_open c"
  by (cases c)
    (simp_all add: is_frame_call_def is_callback_call_def is_log_io_def is_append_open_def
       is_open_def)

lemma file_text_emit [simp]: "file_text (emit c w) = file_text w"
  by (simp add: file_text_def fun_eq_iff)

lemma file_text_upd [simp]:
  "file_text (w\<lparr>clear_color := k\<rparr>) = file_text w"
  "file_text (w\<lparr>viewport := v\<rparr>) = file_text w"
  "file_text (w\<lparr>cleared := ks\<rparr>) = file_text w"
  "file_text (w\<lparr>polls := n\<rparr>) = file_text w"
  "file_text (w\<lparr>should_close := b\<rparr>) = file_text w"
  by (simp_all add: file_text_def fun_eq_iff)

lemma grows_prefix:
  "grows A w w' \<Longrightarrow> prefix (file_text w g_logfilename) (file_text w' g_logfilename)"
  by (simp add: grows_def)

lemma grows_init_gl_state:
  "grows (\<lambda>c. is_append_open c \<or> \<not> is_open c) w (init_gl_state e p w)"
  by (simp add: grows_def init_gl_state_facts is_open_def
        init_gl_state_def glClearColor_def fbsize_cb_def glViewport_def Let_def)

lemma main_run_grows:
  "grows (\<lambda>c. is_append_open c \<or> \<not> is_open c)
     (snd (create_log_file e (boot files))) (world_of (main e fuel (boot files)))"
proof (cases "init_succeeds e")
  case True
  from main_success [OF True, of fuel files] obtain v where v:
    "main e fuel (boot files) =
       finish (createWindow_result e)
         (frame_loop e fuel (createWindow_result e)
            (init_gl_state e (createWindow_result e) v))"
    "quiet is_setup_call (snd (create_log_file e (boot files))) v"
    by blast
  have g1: "grows (\<lambda>c. is_append_open c \<or> \<not> is_open c)
              (snd (create_log_file e (boot files))) v"
    by (rule grows_mono [OF quiet_grows [OF v(2)] setup_opens_append])
  have g3: "grows (\<lambda>c. is_append_open c \<or> \<not> is_open c)
              (init_gl_state e (createWindow_result e) v)
              (world_of (main e fuel (boot files)))"
    unfolding v(1)
    by (rule grows_mono [OF quiet_grows [OF quiet_finish_frame_loop] late_opens_append])
  from grows_trans [OF grows_trans [OF g1 grows_init_gl_state] g3] show ?thesis .
next
  case False
  from main_failure_world [OF False, of fuel files] obtain v where v:
    "main e fuel (boot files) =
       Exits EXIT_FAILURE
         (fold emit (teardown_calls e)
            (snd (log_to_debug_file e g_logfilename (failure_message e) v)))"
    "quiet is_setup_call (snd (create_log_file e (boot files)))
       (fold emit (teardown_calls e)
          (snd (log_to_debug_file e g_logfilename (failure_message e) v)))"
    by blast
  show ?thesis
    unfolding v(1) world_of.simps
    by (rule grows_mono [OF quiet_grows [OF v(2)] setup_opens_append])
qed

lemma opens_of_grows:
  assumes "grows (\<lambda>c. is_append_open c \<or> \<not> is_open c) w w'"
  shows "list_all is_append_open (filter is_open (new_calls w w'))"
proof -
  from grows_new_calls [OF assms]
  have "list_all (\<lambda>c. is_append_open c \<or> \<not> is_open c) (new_calls w w')"
    by (rule conjunct2)
  then show ?thesis
    by (auto simp: list_all_iff)
qed

text \<open>
  Claim C7, amended. Each call of \<open>log_to_debug_file\<close> opens the file in append mode.
  When the open succeeds, the call writes each value followed by one space and then one
  line end, and closes the file before it returns: the file then holds what it held
  before, followed by the new text. That text is one line when no value holds a line
  end, and has one line more for each line end inside a value. When the open fails, the
  call writes nothing to the file. In a run of \<open>main\<close>, every open of a file after the
  log file is created is in append mode, and what the log file held after its creation
  is still the beginning of what it holds at any later moment: nothing written is ever
  overwritten.
\<close>

theorem log_is_append_only:
  "new_calls w (snd (log_to_debug_file e name args w)) =
     (if can_open e (opens w) then
        OfstreamOpen name Mode_app True
          # map (\<lambda>a. OfstreamWrite name (show_arg a @ '' '')) args
          @ [OfstreamWrite name newline, OfstreamClose name]
      else [OfstreamOpen name Mode_app False, could_not_open name])
   \<and> file_text (snd (log_to_debug_file e name args w)) name =
       (if can_open e (opens w) then file_text w name @ log_text args else file_text w name)
   \<and> line_count (log_text args) = 1 + sum_list (map (\<lambda>a. line_count (show_arg a)) args)
   \<and> prefix (file_text (snd (create_log_file e' (boot files))) g_logfilename)
        (file_text (world_of (main e' fuel (boot files))) g_logfilename)
   \<and> list_all is_append_open
        (filter is_open
           (new_calls (snd (create_log_file e' (boot files)))
              (world_of (main e' fuel (boot files)))))"
proof -
  have "calls (snd (log_to_debug_file e name args w)) =
      calls w @ log_calls name (can_open e (opens w)) args"
    by simp
  then have "new_calls w (snd (log_to_debug_file e name args w)) =
      log_calls name (can_open e (opens w)) args"
    by (rule new_calls_append)
  then have per_call: "new_calls w (snd (log_to_debug_file e name args w)) =
     (if can_open e (opens w) then
        OfstreamOpen name Mode_app True
          # map (\<lambda>a. OfstreamWrite name (show_arg a @ '' '')) args
          @ [OfstreamWrite name newline, OfstreamClose name]
      else [OfstreamOpen name Mode_app False, could_not_open name])"
    by (simp add: log_calls_def)
  have content: "file_text (snd (log_to_debug_file e name args w)) name =
       (if can_open e (opens w) then file_text w name @ log_text args else file_text w name)"
    by (simp add: log_file_text)
  have kept: "prefix (file_text (snd (create_log_file e' (boot files))) g_logfilename)
        (file_text (world_of (main e' fuel (boot files))) g_logfilename)"
    by (rule grows_prefix [OF main_run_grows])
  from per_call content line_count_log_text [of args] kept
    opens_of_grows [OF main_run_grows [of e' files fuel]]
  show ?thesis by (intro conjI)
qed

text \<open>
  The claim C7 as it was stated says that each call writes exactly one line. When OpenGL
  4.5 is not supported, \<open>init_gl_loader\<close> calls the helper once, with a message that ends
  in a line end: the one call leaves two lines in the file.
\<close>

theorem log_call_one_line_counterexample:
  "calls (snd (init_gl_loader env_old_gl (boot no_files))) =
     [GlewInit, OfstreamOpen g_logfilename Mode_app True,
      OfstreamWrite g_logfilename
        (''ERROR: System doesn't support GL 4.5 API'' @ newline @ '' ''),
      OfstreamWrite g_logfilename newline, OfstreamClose g_logfilename]
   \<and> line_count (file_text (snd (init_gl_loader env_old_gl (boot no_files))) g_logfilename) = 2"
  by (simp add: init_gl_loader_def Let_def log_file_text log_calls_def always_def
        line_count_log_text)
    (simp add: line_count_def newline_def)

section \<open>The clear colour\<close>

lemma late_not_clear_color: "is_frame_call c \<or> c = GlfwTerminate \<Longrightarrow> \<not> is_clear_color c"
  by (cases c)
    (simp_all add: is_frame_call_def is_callback_call_def is_log_io_def is_clear_color_def)

lemma calls_init_gl_state:
  "calls (init_gl_state e p w) =
     calls w @ [GlClearColor 0 1 0 1, GlfwGetFramebufferSize p,
                GlViewport 0 0 (fst (framebuffer_size e)) (snd (framebuffer_size e))]"
  by (simp add: init_gl_state_def glClearColor_def fbsize_cb_def glViewport_def Let_def)

lemma quiet_clear_color: "quiet A w w' \<Longrightarrow> clear_color w' = clear_color w"
  by (simp add: quiet_def)

lemma quiet_cleared:
  "quiet A w w' \<Longrightarrow>
   cleared w' = cleared w @ replicate (length (filter is_clear (new_calls w w'))) (clear_color w)"
  by (simp add: quiet_def)

lemma main_clears:
  "filter is_clear_color (calls (world_of (main e fuel (boot files)))) =
     (if init_succeeds e then [GlClearColor 0 1 0 1] else [])"
  "cleared (world_of (main e fuel (boot files))) =
     replicate (length (filter is_clear (calls (world_of (main e fuel (boot files)))))) green"
proof -
  let ?B = "snd (create_log_file e (boot files))"
  let ?W = "world_of (main e fuel (boot files))"
  have "filter is_clear_color (calls ?W) =
          (if init_succeeds e then [GlClearColor 0 1 0 1] else [])
        \<and> cleared ?W = replicate (length (filter is_clear (calls ?W))) green"
  proof (cases "init_succeeds e")
    case True
    from main_success [OF True, of fuel files] obtain v where v:
      "main e fuel (boot files) =
         finish (createWindow_result e)
           (frame_loop e fuel (createWindow_result e)
              (init_gl_state e (createWindow_result e) v))"
      "quiet is_setup_call ?B v"
      by blast
    let ?w5 = "init_gl_state e (createWindow_result e) v"
    have late: "quiet (\<lambda>c. is_frame_call c \<or> c = GlfwTerminate) ?w5 ?W"
      unfolding v(1) by (rule quiet_finish_frame_loop)
    have before: "cleared v = []" "filter is_clear_color (calls v) = []"
      "filter is_clear (calls v) = []"
      by (simp_all add: quiet_setup_facts [OF v(2)] bootstrap_facts del: is_clear_iff)
    have ready: "cleared ?w5 = []" "clear_color ?w5 = green"
      "filter is_clear_color (calls ?w5) = [GlClearColor 0 1 0 1]"
      "filter is_clear (calls ?w5) = []"
      using before
      by (simp_all add: init_gl_state_facts calls_init_gl_state is_clear_color_def
            del: is_clear_iff)
        simp
    from grows_new_calls [OF quiet_grows [OF late]]
    have split: "calls ?W = calls ?w5 @ new_calls ?w5 ?W"
      by (rule conjunct1)
    have "filter is_clear (calls ?W) = filter is_clear (new_calls ?w5 ?W)"
      by (subst split) (simp add: ready(4) del: is_clear_iff)
    with quiet_cleared [OF late] ready
    have "cleared ?W = replicate (length (filter is_clear (calls ?W))) green"
      by (simp del: is_clear_iff)
    moreover have "filter is_clear_color (calls ?W) = [GlClearColor 0 1 0 1]"
      using grows_filter [OF quiet_grows [OF late] late_not_clear_color] ready(3)
      by simp
    ultimately show ?thesis
      using True by simp
  next
    case False
    from main_failure_world [OF False, of fuel files] obtain v where v:
      "main e fuel (boot files) =
         Exits EXIT_FAILURE
           (fold emit (teardown_calls e)
              (snd (log_to_debug_file e g_logfilename (failure_message e) v)))"
      "quiet is_setup_call ?B
         (fold emit (teardown_calls e)
            (snd (log_to_debug_file e g_logfilename (failure_message e) v)))"
      by blast
    have "quiet is_setup_call ?B ?W"
      unfolding v(1) world_of.simps by (rule v(2))
    from quiet_setup_facts [OF this] False show ?thesis
      by (simp add: bootstrap_facts del: is_clear_iff)
  qed
  then show
    "filter is_clear_color (calls ?W) = (if init_succeeds e then [GlClearColor 0 1 0 1] else [])"
    "cleared ?W = replicate (length (filter is_clear (calls ?W))) green"
    by blast+
qed

text \<open>
  Claim C10. In every run of \<open>main\<close>, \<^verbatim>\<open>glClearColor\<close> is called once, with the opaque green
  (0, 1, 0, 1), when the initialisation succeeds (it is the first call of
  \<open>init_gl_state\<close>), and never when the initialisation fails. Neither \<open>draw\<close> nor \<open>update\<close>
  nor any callback that GLFW dispatches changes the clear colour. Hence every
  \<^verbatim>\<open>glClear\<close> of the run, however long the frame loop runs, fills the colour buffer with
  that same green.
\<close>

theorem clear_color_is_set_once_to_green:
  "filter is_clear_color (calls (world_of (main e fuel (boot files)))) =
     (if init_succeeds e then [GlClearColor 0 1 0 1] else [])
   \<and> cleared (world_of (main e fuel (boot files))) =
       replicate (length (filter is_clear (calls (world_of (main e fuel (boot files)))))) green
   \<and> green = (0, 1, 0, 1)
   \<and> take 1 (new_calls w (init_gl_state e' p w)) = [GlClearColor 0 1 0 1]
   \<and> clear_color (init_gl_state e' p w) = green
   \<and> clear_color (draw p w) = clear_color w
   \<and> clear_color (update e' p w) = clear_color w
   \<and> clear_color (dispatch e' ev w) = clear_color w"
proof -
  have "clear_color (draw p w) = clear_color w"
    by (simp add: draw_def glClear_def)
  moreover have "clear_color (update e' p w) = clear_color w"
    unfolding update_def by (rule quiet_clear_color [OF quiet_glfwPollEvents])
  moreover have "clear_color (dispatch e' ev w) = clear_color w"
    by (rule quiet_clear_color [OF quiet_dispatch])
  moreover have "take 1 (new_calls w (init_gl_state e' p w)) = [GlClearColor 0 1 0 1]"
    by (simp add: init_gl_state_facts)
  ultimately show ?thesis
    by (simp add: main_clears init_gl_state_facts green_def)
qed

end
